theory Spec2Isabelle
  imports Main "HOL-Library.Sublist" "HOL-Library.List_Lexorder" "HOL-Library.Multiset"
begin

section \<open>Python strings\<close>

text \<open>
  A Python \<^verbatim>\<open>str\<close> is a sequence of Unicode code points. \<^verbatim>\<open>str.strip()\<close> removes code
  points such as U+00A0 and U+2028, which are several bytes in UTF-8, so a string is modelled
  as the list of its code points and not as a byte string. ASCII literals of the source are
  written \<open>lit ''...''\<close>; a character outside ASCII is written as its code point.
\<close>

type_synonym pychar = nat
type_synonym pystr = "pychar list"

definition lit :: "string \<Rightarrow> pystr" where
  "lit s = map of_char s"

text \<open>\<^verbatim>\<open>str.isspace\<close> on one code point: the whitespace table of CPython.\<close>

definition isspace :: "pychar \<Rightarrow> bool" where
  "isspace c \<longleftrightarrow>
     (0x09 \<le> c \<and> c \<le> 0x0D) \<or> (0x1C \<le> c \<and> c \<le> 0x20) \<or> c = 0x85 \<or> c = 0xA0 \<or>
     c = 0x1680 \<or> (0x2000 \<le> c \<and> c \<le> 0x200A) \<or> c = 0x2028 \<or> c = 0x2029 \<or>
     c = 0x202F \<or> c = 0x205F \<or> c = 0x3000"

text \<open>\<^verbatim>\<open>s.strip()\<close> and \<^verbatim>\<open>s.strip(chars)\<close>: drop from both ends while the code point is
  whitespace, respectively is one of \<open>chars\<close>.\<close>

definition py_strip :: "pystr \<Rightarrow> pystr" where
  "py_strip s = rev (dropWhile isspace (rev (dropWhile isspace s)))"

definition py_strip_chars :: "pystr \<Rightarrow> pystr \<Rightarrow> pystr" where
  "py_strip_chars chars s =
     rev (dropWhile (\<lambda>c. c \<in> set chars) (rev (dropWhile (\<lambda>c. c \<in> set chars) s)))"

definition startswith :: "pystr \<Rightarrow> pystr \<Rightarrow> bool" where
  "startswith s p = prefix p s"

text \<open>\<^verbatim>\<open>sep.join(parts)\<close>.\<close>

fun join :: "pystr \<Rightarrow> pystr list \<Rightarrow> pystr" where
  "join sep [] = []"
| "join sep [x] = x"
| "join sep (x # y # ys) = x @ sep @ join sep (y # ys)"

text \<open>\<^verbatim>\<open>s.replace("\n", "<br>")\<close>: the pattern is one code point long.\<close>

definition replace_newlines :: "pystr \<Rightarrow> pystr" where
  "replace_newlines s = concat (map (\<lambda>c. if c = 0x0A then lit ''<br>'' else [c]) s)"

text \<open>\<^verbatim>\<open>str(n)\<close> for an unbounded Python \<^verbatim>\<open>int\<close>: decimal digits, a minus sign when negative.\<close>

fun nat_str :: "nat \<Rightarrow> pystr" where
  "nat_str n = (if n < 10 then [0x30 + n] else nat_str (n div 10) @ [0x30 + n mod 10])"

declare nat_str.simps [simp del]

definition int_str :: "int \<Rightarrow> pystr" where
  "int_str i = (if i < 0 then 0x2D # nat_str (nat (- i)) else nat_str (nat i))"

section \<open>Values produced by the YAML loader\<close>

text \<open>
  A Python \<^verbatim>\<open>float\<close> is an IEEE double. Its finite values stay abstract (type \<open>'f\<close>): the
  only operation the generator applies to one is \<^verbatim>\<open>repr\<close>, which belongs to CPython.
\<close>

datatype 'f pyfloat = Finite 'f | PosInf | NegInf | NaN

text \<open>
  The objects \<^verbatim>\<open>yaml.safe_load\<close> builds from null, booleans, integers, floats, strings,
  sequences and mappings. A mapping keeps its items in insertion order, with pairwise
  different keys. Timestamps, binary values and sets are not covered.
\<close>

datatype 'f yval =
    YNull
  | YBool bool
  | YInt int
  | YFloat "'f pyfloat"
  | YStr pystr
  | YList "'f yval list"
  | YDict "('f yval \<times> 'f yval) list"

datatype error = YAMLError | KeyError pystr | TypeError | AttributeError

text \<open>An exception is the result \<open>Inl e\<close>; \<open>and_then m f\<close> goes on with \<open>f\<close> when \<open>m\<close> did
  not raise.\<close>

definition and_then :: "error + 'a \<Rightarrow> ('a \<Rightarrow> error + 'b) \<Rightarrow> error + 'b" where
  "and_then m f = (case m of Inl e \<Rightarrow> Inl e | Inr x \<Rightarrow> f x)"

text \<open>
  What the generator takes from PyYAML and from CPython, as parameters of the model:
  the YAML parser, \<^verbatim>\<open>repr\<close> of a finite float, \<^verbatim>\<open>repr\<close> of a string (quoting and escaping),
  and \<^verbatim>\<open>str.capitalize\<close> (Unicode case mapping).
\<close>

record 'f pylib =
  safe_load :: "pystr \<Rightarrow> error + 'f yval"
  float_repr :: "'f \<Rightarrow> pystr"
  str_repr :: "pystr \<Rightarrow> pystr"
  capitalize :: "pystr \<Rightarrow> pystr"

fun float_str :: "'f pylib \<Rightarrow> 'f pyfloat \<Rightarrow> pystr" where
  "float_str L (Finite x) = float_repr L x"
| "float_str L PosInf = lit ''inf''"
| "float_str L NegInf = lit ''-inf''"
| "float_str L NaN = lit ''nan''"

text \<open>\<^verbatim>\<open>repr(v)\<close>, and \<^verbatim>\<open>str(v)\<close>, which is what an f-string and \<^verbatim>\<open>str.format\<close> substitute
  for \<^verbatim>\<open>{v}\<close>: the string itself for a \<^verbatim>\<open>str\<close>, \<^verbatim>\<open>repr(v)\<close> otherwise.\<close>

fun py_repr :: "'f pylib \<Rightarrow> 'f yval \<Rightarrow> pystr" where
  "py_repr L YNull = lit ''None''"
| "py_repr L (YBool b) = (if b then lit ''True'' else lit ''False'')"
| "py_repr L (YInt n) = int_str n"
| "py_repr L (YFloat x) = float_str L x"
| "py_repr L (YStr s) = str_repr L s"
| "py_repr L (YList xs) = lit ''['' @ join (lit '', '') (map (py_repr L) xs) @ lit '']''"
| "py_repr L (YDict items) =
     lit ''{'' @ join (lit '', '') (map (\<lambda>(k, v). py_repr L k @ lit '': '' @ py_repr L v) items)
       @ lit ''}''"

fun py_str :: "'f pylib \<Rightarrow> 'f yval \<Rightarrow> pystr" where
  "py_str L (YStr s) = s"
| "py_str L v = py_repr L v"

section \<open>\<^verbatim>\<open>json.dumps(..., ensure_ascii=False)\<close>\<close>

text \<open>The string encoder escapes the quote, the backslash and the control characters below
  U+0020, and leaves every other code point as it is.\<close>

definition hex_digit :: "nat \<Rightarrow> pychar" where
  "hex_digit d = (if d < 10 then 0x30 + d else 0x57 + d)"

definition escape_char :: "pychar \<Rightarrow> pystr" where
  "escape_char c =
     (if c = 0x5C then [0x5C, 0x5C]
      else if c = 0x22 then [0x5C, 0x22]
      else if c = 0x08 then [0x5C, 0x62]
      else if c = 0x0C then [0x5C, 0x66]
      else if c = 0x0A then [0x5C, 0x6E]
      else if c = 0x0D then [0x5C, 0x72]
      else if c = 0x09 then [0x5C, 0x74]
      else if c < 0x20 then [0x5C, 0x75, 0x30, 0x30, hex_digit (c div 16), hex_digit (c mod 16)]
      else [c])"

definition encode_basestring :: "pystr \<Rightarrow> pystr" where
  "encode_basestring s = [0x22] @ concat (map escape_char s) @ [0x22]"

fun float_json :: "'f pylib \<Rightarrow> 'f pyfloat \<Rightarrow> pystr" where
  "float_json L (Finite x) = float_repr L x"
| "float_json L PosInf = lit ''Infinity''"
| "float_json L NegInf = lit ''-Infinity''"
| "float_json L NaN = lit ''NaN''"

text \<open>A mapping key is written as a string; a key that is not a string, a number, a boolean
  or \<^verbatim>\<open>None\<close> raises \<^verbatim>\<open>TypeError\<close>.\<close>

fun json_key :: "'f pylib \<Rightarrow> 'f yval \<Rightarrow> error + pystr" where
  "json_key L (YStr s) = Inr s"
| "json_key L (YFloat x) = Inr (float_json L x)"
| "json_key L (YBool b) = Inr (if b then lit ''true'' else lit ''false'')"
| "json_key L YNull = Inr (lit ''null'')"
| "json_key L (YInt n) = Inr (int_str n)"
| "json_key L v = Inl TypeError"

fun dumps :: "'f pylib \<Rightarrow> 'f yval \<Rightarrow> error + pystr"
  and dumps_list :: "'f pylib \<Rightarrow> 'f yval list \<Rightarrow> error + pystr list"
  and dumps_items :: "'f pylib \<Rightarrow> ('f yval \<times> 'f yval) list \<Rightarrow> error + pystr list"
where
  "dumps L YNull = Inr (lit ''null'')"
| "dumps L (YBool b) = Inr (if b then lit ''true'' else lit ''false'')"
| "dumps L (YInt n) = Inr (int_str n)"
| "dumps L (YFloat x) = Inr (float_json L x)"
| "dumps L (YStr s) = Inr (encode_basestring s)"
| "dumps L (YList xs) =
     (case dumps_list L xs of
        Inl e \<Rightarrow> Inl e
      | Inr texts \<Rightarrow> Inr (lit ''['' @ join (lit '', '') texts @ lit '']''))"
| "dumps L (YDict items) =
     (case dumps_items L items of
        Inl e \<Rightarrow> Inl e
      | Inr texts \<Rightarrow> Inr (lit ''{'' @ join (lit '', '') texts @ lit ''}''))"
| "dumps_list L [] = Inr []"
| "dumps_list L (x # xs) =
     (case dumps L x of
        Inl e \<Rightarrow> Inl e
      | Inr t \<Rightarrow> (case dumps_list L xs of Inl e \<Rightarrow> Inl e | Inr ts \<Rightarrow> Inr (t # ts)))"
| "dumps_items L [] = Inr []"
| "dumps_items L ((k, v) # items) =
     (case json_key L k of
        Inl e \<Rightarrow> Inl e
      | Inr key \<Rightarrow>
          (case dumps L v of
             Inl e \<Rightarrow> Inl e
           | Inr t \<Rightarrow>
               (case dumps_items L items of
                  Inl e \<Rightarrow> Inl e
                | Inr ts \<Rightarrow> Inr ((encode_basestring key @ lit '': '' @ t) # ts))))"

section \<open>Route records\<close>

text \<open>\<^verbatim>\<open>r[key]\<close> and \<^verbatim>\<open>r.get(key, default)\<close> for a string key. Subscripting anything but a
  mapping with a string raises \<^verbatim>\<open>TypeError\<close>; a mapping without the key raises
  \<^verbatim>\<open>KeyError\<close>.\<close>

definition lookup :: "('f yval \<times> 'f yval) list \<Rightarrow> pystr \<Rightarrow> 'f yval option" where
  "lookup items key = map_of items (YStr key)"

fun subscript :: "'f yval \<Rightarrow> pystr \<Rightarrow> error + 'f yval" where
  "subscript (YDict items) key =
     (case lookup items key of None \<Rightarrow> Inl (KeyError key) | Some v \<Rightarrow> Inr v)"
| "subscript v key = Inl TypeError"

definition dict_get :: "('f yval \<times> 'f yval) list \<Rightarrow> pystr \<Rightarrow> 'f yval \<Rightarrow> 'f yval" where
  "dict_get items key dflt = (case lookup items key of None \<Rightarrow> dflt | Some v \<Rightarrow> v)"

fun get_default :: "'f yval \<Rightarrow> pystr \<Rightarrow> 'f yval \<Rightarrow> error + 'f yval" where
  "get_default (YDict items) key dflt = Inr (dict_get items key dflt)"
| "get_default v key dflt = Inl AttributeError"

text \<open>\<^verbatim>\<open>r.get(key)\<close>: the default is \<^verbatim>\<open>None\<close>.\<close>

definition get :: "'f yval \<Rightarrow> pystr \<Rightarrow> error + 'f yval" where
  "get r key = get_default r key YNull"

section \<open>Output files\<close>

text \<open>A path is the list of its components below the project root. The files a run writes
  are kept in the order of the writes; \<open>commit\<close> applies them to a file store, a later
  write to a path replacing the earlier content.\<close>

type_synonym path = "pystr list"
type_synonym files = "(path \<times> pystr) list"

definition write_text :: "files \<Rightarrow> path \<Rightarrow> pystr \<Rightarrow> files" where
  "write_text out p text = out @ [(p, text)]"

definition commit :: "(path \<rightharpoonup> pystr) \<Rightarrow> files \<Rightarrow> (path \<rightharpoonup> pystr)" where
  "commit fs out = fold (\<lambda>(p, text) m. m(p \<mapsto> text)) out fs"

section \<open>\<^verbatim>\<open>load_routes\<close>\<close>

text \<open>A metadata directory is the list of its files, each with its name and the text
  \<^verbatim>\<open>read()\<close> returns for it, in the order in which the file system enumerates them. \<^verbatim>\<open>glob("*.md")\<close> keeps the names that end
  in \<^verbatim>\<open>.md\<close>; \<^verbatim>\<open>sorted\<close> orders the paths, which differ in the file name only,
  by file name.\<close>

type_synonym md_file = "pystr \<times> pystr"

definition glob_md :: "md_file list \<Rightarrow> md_file list" where
  "glob_md metadata_dir = filter (\<lambda>(name, text). suffix (lit ''.md'') name) metadata_dir"

text \<open>Lines 34 to 37: the text handed to the YAML parser.\<close>

definition strip_delimiters :: "pystr \<Rightarrow> pystr" where
  "strip_delimiters text =
     (let content = py_strip text
      in if startswith content (lit ''---'')
         then py_strip (py_strip_chars (lit ''-'') content)
         else content)"

fun load_loop :: "'f pylib \<Rightarrow> md_file list \<Rightarrow> 'f yval list \<Rightarrow> error + 'f yval list" where
  "load_loop L [] routes = Inr routes"
| "load_loop L ((name, text) # rest) routes =
     (case safe_load L (strip_delimiters text) of
        Inl e \<Rightarrow> Inl e
      | Inr meta \<Rightarrow> load_loop L rest (routes @ [meta]))"

definition load_routes :: "'f pylib \<Rightarrow> md_file list \<Rightarrow> error + 'f yval list" where
  "load_routes L metadata_dir = load_loop L (sort_key fst (glob_md metadata_dir)) []"

section \<open>\<^verbatim>\<open>generate_area_index\<close>\<close>

text \<open>The dictionary built for one route in the list comprehension of lines 56 to 66.\<close>

definition route_entry :: "'f yval \<Rightarrow> error + 'f yval" where
  "route_entry r =
     and_then (subscript r (lit ''title'')) (\<lambda>title.
     and_then (subscript r (lit ''slug'')) (\<lambda>slug.
     and_then (get r (lit ''distance_km'')) (\<lambda>distance.
     and_then (get r (lit ''elevation_m'')) (\<lambda>elevation.
     and_then (get r (lit ''asphalt_pct'')) (\<lambda>asphalt.
     and_then (get r (lit ''gravel_pct'')) (\<lambda>gravel.
        Inr (YDict
          [(YStr (lit ''title''), title),
           (YStr (lit ''slug''), slug),
           (YStr (lit ''distance''), distance),
           (YStr (lit ''elevation''), elevation),
           (YStr (lit ''asphalt''), asphalt),
           (YStr (lit ''gravel''), gravel)])))))))"

fun route_entries :: "'f yval list \<Rightarrow> error + 'f yval list" where
  "route_entries [] = Inr []"
| "route_entries (r # routes) =
     (case route_entry r of
        Inl e \<Rightarrow> Inl e
      | Inr entry \<Rightarrow>
          (case route_entries routes of Inl e \<Rightarrow> Inl e | Inr entries \<Rightarrow> Inr (entry # entries)))"

text \<open>The f-string of lines 68 to 130, one literal for each line of the source.\<close>

definition area_index_html :: "pystr \<Rightarrow> pystr \<Rightarrow> pystr" where
  \<open>area_index_html cap_area routes_json =
     concat
       [lit ''<!DOCTYPE html>\<newline>'',
        lit ''<html lang="sv">\<newline>'',
        lit ''<head>\<newline>'',
        lit ''  <meta charset="utf-8">\<newline>'',
        lit ''  <title>Gravel '',
        cap_area,
        lit ''</title>\<newline>'',
        lit ''  <meta name="viewport" content="width=device-width, initial-scale=1">\<newline>'',
        lit ''  <link rel="stylesheet" href="../../shared/style.css">\<newline>'',
        lit ''  <script src="https://cdn.jsdelivr.net/npm/leaflet@1.9.4/dist/leaflet.js"></script>\<newline>'',
        lit ''  <link rel="stylesheet" href="https://cdn.jsdelivr.net/npm/leaflet@1.9.4/dist/leaflet.css" />\<newline>'',
        lit ''</head>\<newline>'',
        lit ''<body>\<newline>'',
        lit ''  <header class="header">\<newline>'',
        lit ''    <h1>Gravelrutter i '',
        cap_area,
        lit ''</h1>\<newline>'',
        lit ''    <nav><a href="/index.html">Till startsidan</a></nav>\<newline>'',
        lit ''  </header>\<newline>'',
        lit ''  <section class="filter">\<newline>'',
        lit ''    <label>Max distans (km): <input id="maxDist" type="number" min="0" step="1" placeholder="Alla"></label>\<newline>'',
        lit ''    <label>Max h'',
        [246],
        lit ''jdmeter: <input id="maxElev" type="number" min="0" step="50" placeholder="Alla"></label>\<newline>'',
        lit ''    <button onclick="applyFilters()">Filtrera</button>\<newline>'',
        lit ''    <button onclick="resetFilters()">'',
        [197],
        lit ''terst'',
        [228],
        lit ''ll</button>\<newline>'',
        lit ''  </section>\<newline>'',
        lit ''  <section id="routeList"></section>\<newline>'',
        lit ''  <script>\<newline>'',
        lit ''    const routes = '',
        routes_json,
        lit '';\<newline>'',
        lit ''    function renderList(data) {\<newline>'',
        lit ''      const container = document.getElementById('routeList');\<newline>'',
        lit ''      container.innerHTML = '',
        [39, 39],
        lit '';\<newline>'',
        lit ''      if (!data.length) {\<newline>'',
        lit ''        container.innerHTML = '<p>Inga rutter matchar filtren.</p>';\<newline>'',
        lit ''        return;\<newline>'',
        lit ''      }\<newline>'',
        lit ''      data.forEach(r => {\<newline>'',
        lit ''        const div = document.createElement('div');\<newline>'',
        lit ''        div.className = 'route-card';\<newline>'',
        lit ''        div.innerHTML = `\<newline>'',
        lit ''          <h2><a href="./routes/${r.slug}.html">${r.title}</a></h2>\<newline>'',
        lit ''          <p><strong>Distans:</strong> ${r.distance} km<br>\<newline>'',
        lit ''          <strong>H'',
        [246],
        lit ''jdmeter:</strong> ${r.elevation} m<br>\<newline>'',
        lit ''          <strong>Asfalt:</strong> ${r.asphalt} %<br>\<newline>'',
        lit ''          <strong>Grus:</strong> ${r.gravel} %</p>\<newline>'',
        lit ''        `;\<newline>'',
        lit ''        container.appendChild(div);\<newline>'',
        lit ''      });\<newline>'',
        lit ''    }\<newline>'',
        lit ''    function applyFilters() {\<newline>'',
        lit ''      const maxD = parseFloat(document.getElementById('maxDist').value);\<newline>'',
        lit ''      const maxE = parseFloat(document.getElementById('maxElev').value);\<newline>'',
        lit ''      const filtered = routes.filter(r => {\<newline>'',
        lit ''        return (isNaN(maxD) || r.distance <= maxD) &&\<newline>'',
        lit ''               (isNaN(maxE) || r.elevation <= maxE);\<newline>'',
        lit ''      });\<newline>'',
        lit ''      renderList(filtered);\<newline>'',
        lit ''    }\<newline>'',
        lit ''    function resetFilters() {\<newline>'',
        lit ''      document.getElementById('maxDist').value = '',
        [39, 39],
        lit '';\<newline>'',
        lit ''      document.getElementById('maxElev').value = '',
        [39, 39],
        lit '';\<newline>'',
        lit ''      renderList(routes);\<newline>'',
        lit ''    }\<newline>'',
        lit ''    // Initial render\<newline>'',
        lit ''    renderList(routes);\<newline>'',
        lit ''  </script>\<newline>'',
        lit ''</body>\<newline>'',
        lit ''</html>'']\<close>

definition generate_area_index ::
    "'f pylib \<Rightarrow> pystr \<Rightarrow> 'f yval list \<Rightarrow> path \<Rightarrow> files \<Rightarrow> error + files" where
  "generate_area_index L area routes output_path out =
     and_then (route_entries routes) (\<lambda>entries.
     and_then (dumps L (YList entries)) (\<lambda>routes_json.
        Inr (write_text out output_path (area_index_html (capitalize L area) routes_json))))"

section \<open>\<^verbatim>\<open>generate_route_page\<close>\<close>

text \<open>\<^verbatim>\<open>for img in photos\<close>: a list gives its elements, a string its characters, a mapping
  its keys; anything else is not iterable.\<close>

fun py_iter :: "'f yval \<Rightarrow> error + 'f yval list" where
  "py_iter (YList xs) = Inr xs"
| "py_iter (YStr s) = Inr (map (\<lambda>c. YStr [c]) s)"
| "py_iter (YDict items) = Inr (map fst items)"
| "py_iter v = Inl TypeError"

text \<open>\<^verbatim>\<open>description.replace("\n", "<br>")\<close>: only a string has the method taking two
  strings.\<close>

fun description_replace :: "'f yval \<Rightarrow> error + pystr" where
  "description_replace (YStr s) = Inr (replace_newlines s)"
| "description_replace v = Inl AttributeError"

definition photo_item :: "pystr \<Rightarrow> pystr \<Rightarrow> pystr" where
  \<open>photo_item img title =
     concat
       [lit ''<li><img src="../images/'',
        img,
        lit ''" alt="Foto '',
        title,
        lit ''"></li>'']\<close>

text \<open>\<^verbatim>\<open>map_script_template.format(gpx_file=gpx_file)\<close>, the doubled braces of the template
  written once.\<close>

definition map_script_format :: "pystr \<Rightarrow> pystr" where
  \<open>map_script_format gpx_file =
     concat
       [lit ''\<newline>'',
        lit ''    <script>\<newline>'',
        lit ''      const map = L.map('map');\<newline>'',
        lit ''      L.tileLayer('https://{s}.tile.openstreetmap.org/{z}/{x}/{y}.png', {\<newline>'',
        lit ''        attribution: 'Map data '',
        [169],
        lit '' <a href="https://openstreetmap.org">OpenStreetMap</a> contributors'\<newline>'',
        lit ''      }).addTo(map);\<newline>'',
        lit ''      const gpxPath = '../../gpx/'',
        gpx_file,
        [39],
        lit '';\<newline>'',
        lit ''      new L.GPX(gpxPath, {\<newline>'',
        lit ''        async: true,\<newline>'',
        lit ''        marker_options: {\<newline>'',
        lit ''          startIconUrl: 'https://cdnjs.cloudflare.com/ajax/libs/leaflet.gpx/1.7.0/pin-icon-start.png',\<newline>'',
        lit ''          endIconUrl: 'https://cdnjs.cloudflare.com/ajax/libs/leaflet.gpx/1.7.0/pin-icon-end.png',\<newline>'',
        lit ''          shadowUrl: 'https://cdnjs.cloudflare.com/ajax/libs/leaflet.gpx/1.7.0/pin-shadow.png'\<newline>'',
        lit ''        }\<newline>'',
        lit ''      }).on('loaded', function(e) {\<newline>'',
        lit ''        map.fitBounds(e.target.getBounds());\<newline>'',
        lit ''      }).addTo(map);\<newline>'',
        lit ''    </script>\<newline>'',
        lit ''    '']\<close>

text \<open>The string built in lines 184 to 221, with the text substituted for each field.\<close>

definition route_page_html ::
    "pystr \<Rightarrow> pystr \<Rightarrow> pystr \<Rightarrow> pystr \<Rightarrow> pystr \<Rightarrow> pystr \<Rightarrow> pystr \<Rightarrow> pystr \<Rightarrow> pystr \<Rightarrow> pystr" where
  \<open>route_page_html title distance elevation asphalt gravel map_script description_html
       photo_items gpx_file =
     concat
       [lit ''<!DOCTYPE html>\<newline>'',
        lit ''<html lang='sv'>\<newline>'',
        lit ''<head>\<newline>'',
        lit ''  <meta charset='utf-8'>\<newline>'',
        lit ''  <title>'',
        title,
        lit '' '',
        [8211],
        lit '' Gravelrutt</title>\<newline>'',
        lit ''  <meta name='viewport' content='width=device-width, initial-scale=1'>\<newline>'',
        lit ''  <link rel='stylesheet' href='../../../shared/style.css'>\<newline>'',
        lit ''  <script src='https://cdn.jsdelivr.net/npm/leaflet@1.9.4/dist/leaflet.js'></script>\<newline>'',
        lit ''  <script src='https://cdnjs.cloudflare.com/ajax/libs/leaflet.gpx/1.7.0/gpx.min.js'></script>\<newline>'',
        lit ''  <link rel='stylesheet' href='https://cdn.jsdelivr.net/npm/leaflet@1.9.4/dist/leaflet.css' />\<newline>'',
        lit ''</head>\<newline>'',
        lit ''<body>\<newline>'',
        lit ''  <header class='header'>\<newline>'',
        lit ''    <h1>'',
        title,
        lit ''</h1>\<newline>'',
        lit ''    <nav><a href='../index.html'>Tillbaka till ruttlistan</a> | <a href='/index.html'>Startsida</a></nav>\<newline>'',
        lit ''  </header>\<newline>'',
        lit ''  <section class='route-content'>\<newline>'',
        lit ''    <div class='route-facts'>\<newline>'',
        lit ''      <p><strong>Distans:</strong> '',
        distance,
        lit '' km</p>\<newline>'',
        lit ''      <p><strong>H'',
        [246],
        lit ''jdmeter:</strong> '',
        elevation,
        lit '' m</p>\<newline>'',
        lit ''      <p><strong>Andel asfalt:</strong> '',
        asphalt,
        lit '' %</p>\<newline>'',
        lit ''      <p><strong>Andel grus:</strong> '',
        gravel,
        lit '' %</p>\<newline>'',
        lit ''    </div>\<newline>'',
        lit ''    <div id='map' style='height:400px; margin-bottom:1em;'></div>\<newline>'',
        map_script,
        lit ''    <article class='description'>\<newline>'',
        lit ''      <p>'',
        description_html,
        lit ''</p>\<newline>'',
        lit ''    </article>\<newline>'',
        lit ''    <section class='photos'>\<newline>'',
        lit ''      <h2>Bilder</h2>\<newline>'',
        lit ''      <ul class='photo-gallery'>'',
        photo_items,
        lit ''</ul>\<newline>'',
        lit ''    </section>\<newline>'',
        lit ''    <p><a href='../../gpx/'',
        gpx_file,
        [39],
        lit ''>Ladda ned GPX-fil</a></p>\<newline>'',
        lit ''  </section>\<newline>'',
        lit ''</body>\<newline>'',
        lit ''</html>'']\<close>

definition route_page :: "'f pylib \<Rightarrow> 'f yval \<Rightarrow> error + pystr" where
  "route_page L route =
     and_then (subscript route (lit ''title'')) (\<lambda>title.
     and_then (subscript route (lit ''slug'')) (\<lambda>slug.
     and_then (get route (lit ''distance_km'')) (\<lambda>distance.
     and_then (get route (lit ''elevation_m'')) (\<lambda>elevation.
     and_then (get route (lit ''asphalt_pct'')) (\<lambda>asphalt.
     and_then (get route (lit ''gravel_pct'')) (\<lambda>gravel.
     and_then (get route (lit ''gpx_file'')) (\<lambda>gpx_file.
     and_then (get_default route (lit ''description'') (YStr [])) (\<lambda>description.
     and_then (get route (lit ''thumbnail'')) (\<lambda>thumbnail.
     and_then (get_default route (lit ''photos'') (YList [])) (\<lambda>photos.
     and_then (description_replace description) (\<lambda>description_html.
     and_then (py_iter photos) (\<lambda>imgs.
        (let photo_items = concat (map (\<lambda>img. photo_item (py_str L img) (py_str L title)) imgs);
             map_script = map_script_format (py_str L gpx_file)
         in Inr (route_page_html (py_str L title) (py_str L distance) (py_str L elevation)
                   (py_str L asphalt) (py_str L gravel) map_script description_html photo_items
                   (py_str L gpx_file)))))))))))))))"

definition generate_route_page ::
    "'f pylib \<Rightarrow> pystr \<Rightarrow> 'f yval \<Rightarrow> path \<Rightarrow> files \<Rightarrow> error + files" where
  "generate_route_page L area route output_path out =
     (case route_page L route of
        Inl e \<Rightarrow> Inl e
      | Inr html \<Rightarrow> Inr (write_text out output_path html))"

section \<open>\<^verbatim>\<open>generate_root_index\<close>\<close>

definition root_index_head :: pystr where
  \<open>root_index_head =
     concat
       [lit ''<!DOCTYPE html>\<newline>'',
        lit ''<html lang='sv'>\<newline>'',
        lit ''<head>\<newline>'',
        lit ''  <meta charset='utf-8'>\<newline>'',
        lit ''  <title>Gravelrutter</title>\<newline>'',
        lit ''  <meta name='viewport' content='width=device-width, initial-scale=1'>\<newline>'',
        lit ''  <link rel='stylesheet' href='shared/style.css'>\<newline>'',
        lit ''</head>\<newline>'',
        lit ''<body>\<newline>'',
        lit ''  <header class='header'>\<newline>'',
        lit ''    <h1>Gravelrutter</h1>\<newline>'',
        lit ''  </header>\<newline>'',
        lit ''  <section>\<newline>'',
        lit ''    <p>V'',
        [228],
        lit ''lj omr'',
        [229],
        lit ''de:</p>\<newline>'',
        lit ''    <ul>\<newline>'']\<close>

definition root_index_item :: "pystr \<Rightarrow> pystr \<Rightarrow> pystr" where
  \<open>root_index_item area cap_area =
     concat
       [lit ''      <li><a href='areas/'',
        area,
        lit ''/index.html'>'',
        cap_area,
        lit ''</a></li>\<newline>'']\<close>

definition root_index_tail :: pystr where
  \<open>root_index_tail =
     concat
       [lit ''    </ul>\<newline>'',
        lit ''  </section>\<newline>'',
        lit ''</body>\<newline>'',
        lit ''</html>'']\<close>

definition generate_root_index :: "'f pylib \<Rightarrow> pystr list \<Rightarrow> path \<Rightarrow> files \<Rightarrow> files" where
  "generate_root_index L areas output_path out =
     (let html = root_index_head;
          html = foldl (\<lambda>html area. html @ root_index_item area (capitalize L area)) html areas;
          html = html @ root_index_tail
      in write_text out output_path html)"

section \<open>\<^verbatim>\<open>main\<close>\<close>

text \<open>An entry of the \<^verbatim>\<open>areas\<close> directory: a regular file, or a directory with the files of
  its \<^verbatim>\<open>metadata\<close> subdirectory (none when there is no such subdirectory). The argument
  of \<open>main\<close> lists the entries in the order of \<^verbatim>\<open>iterdir()\<close>.\<close>

datatype dir_entry = RegularFile | Directory "md_file list"


text \<open>The inner loop of lines 265 to 267. A failure leaves the files written so far.\<close>

fun route_pages ::
    "'f pylib \<Rightarrow> pystr \<Rightarrow> 'f yval list \<Rightarrow> files \<Rightarrow> error option \<times> files" where
  "route_pages L area [] out = (None, out)"
| "route_pages L area (route # rest) out =
     (case subscript route (lit ''slug'') of
        Inl e \<Rightarrow> (Some e, out)
      | Inr slug \<Rightarrow>
          (case generate_route_page L area route
                  [lit ''areas'', area, lit ''routes'', py_str L slug @ lit ''.html''] out of
             Inl e \<Rightarrow> (Some e, out)
           | Inr out' \<Rightarrow> route_pages L area rest out'))"

fun main_loop ::
    "'f pylib \<Rightarrow> (pystr \<times> dir_entry) list \<Rightarrow> pystr list \<Rightarrow> files
       \<Rightarrow> error option \<times> pystr list \<times> files" where
  "main_loop L [] areas out = (None, areas, out)"
| "main_loop L ((area, RegularFile) # rest) areas out = main_loop L rest areas out"
| "main_loop L ((area, Directory metadata_dir) # rest) areas out =
     (let areas = areas @ [area]
      in case load_routes L metadata_dir of
           Inl e \<Rightarrow> (Some e, areas, out)
         | Inr routes \<Rightarrow>
             (case generate_area_index L area routes [lit ''areas'', area, lit ''index.html''] out of
                Inl e \<Rightarrow> (Some e, areas, out)
              | Inr out \<Rightarrow>
                  (case route_pages L area routes out of
                     (Some e, out) \<Rightarrow> (Some e, areas, out)
                   | (None, out) \<Rightarrow> main_loop L rest areas out)))"

definition main :: "'f pylib \<Rightarrow> (pystr \<times> dir_entry) list \<Rightarrow> error option \<times> files" where
  "main L areas_dir =
     (case main_loop L areas_dir [] [] of
        (Some e, areas, out) \<Rightarrow> (Some e, out)
      | (None, areas, out) \<Rightarrow> (None, generate_root_index L areas [lit ''index.html''] out))"

section \<open>Definitions for the statements and the examples\<close>

text \<open>The keys \<^verbatim>\<open>generate_route_page\<close> reads with \<^verbatim>\<open>get\<close>.\<close>

definition optional_keys :: "pystr list" where
  "optional_keys =
     [lit ''distance_km'', lit ''elevation_m'', lit ''asphalt_pct'', lit ''gravel_pct'',
      lit ''gpx_file'', lit ''description'', lit ''thumbnail'', lit ''photos'']"

text \<open>\<^verbatim>\<open>str.capitalize\<close> on ASCII letters, and a library for the examples: its parser is
  given, a float prints as \<^verbatim>\<open>0.5\<close>, a string is quoted without escapes.\<close>

definition ascii_capitalize :: "pystr \<Rightarrow> pystr" where
  "ascii_capitalize s =
     (case s of
        [] \<Rightarrow> []
      | c # cs \<Rightarrow>
          (if 0x61 \<le> c \<and> c \<le> 0x7A then c - 0x20 else c)
            # map (\<lambda>d. if 0x41 \<le> d \<and> d \<le> 0x5A then d + 0x20 else d) cs)"

definition example_lib :: "(pystr \<Rightarrow> error + unit yval) \<Rightarrow> unit pylib" where
  "example_lib parser =
     \<lparr>safe_load = parser, float_repr = (\<lambda>x. lit ''0.5''),
      str_repr = (\<lambda>s. [0x27] @ s @ [0x27]), capitalize = ascii_capitalize\<rparr>"

definition good_record :: "(unit yval \<times> unit yval) list" where
  "good_record =
     [(YStr (lit ''title''), YStr (lit ''Rundan'')), (YStr (lit ''slug''), YStr (lit ''runda-1''))]"

definition no_slug_record :: "(unit yval \<times> unit yval) list" where
  "no_slug_record = [(YStr (lit ''title''), YStr (lit ''Rundan''))]"

text \<open>The page Python builds for \<open>good_record\<close>: no fact, no description, no photo, no
  track file.\<close>

definition bare_page :: pystr where
  "bare_page =
     route_page_html (lit ''Rundan'') (lit ''None'') (lit ''None'') (lit ''None'') (lit ''None'')
       (map_script_format (lit ''None'')) [] [] (lit ''None'')"

text \<open>A parser for the examples that returns the text it is given, as a string value.\<close>

definition echo_lib :: "unit pylib" where
  "echo_lib = example_lib (\<lambda>text. Inr (YStr text))"

text \<open>A metadata directory enumerated out of order, with a file that is not a route.\<close>

definition unordered_dir :: "md_file list" where
  "unordered_dir =
     [(lit ''b.md'', lit ''second''), (lit ''notes.txt'', lit ''other''), (lit ''a.md'', lit ''first'')]"





text \<open>The record of the scenario in section 8 of the specification, and a record with a
  float.\<close>

definition runda :: "('f yval \<times> 'f yval) list" where
  "runda =
     [(YStr (lit ''slug''), YStr (lit ''runda-1'')),
      (YStr (lit ''title''), YStr (lit ''Rundan'')),
      (YStr (lit ''distance_km''), YInt 55),
      (YStr (lit ''elevation_m''), YInt 600),
      (YStr (lit ''gpx_file''), YStr (lit ''runda-1.gpx'')),
      (YStr (lit ''photos''), YList [])]"

text \<open>The three files of the scenario, for a given capitalised area name.\<close>

definition runda_index :: "pystr \<Rightarrow> pystr" where
  \<open>runda_index cap_area =
     area_index_html cap_area
       (lit ''[{"title": "Rundan", "slug": "runda-1", "distance": 55, "elevation": 600, "asphalt": null, "gravel": null}]'')\<close>

definition runda_page :: pystr where
  "runda_page =
     route_page_html (lit ''Rundan'') (lit ''55'') (lit ''600'') (lit ''None'') (lit ''None'')
       (map_script_format (lit ''runda-1.gpx'')) [] [] (lit ''runda-1.gpx'')"

definition fryksas_root :: "pystr \<Rightarrow> pystr" where
  "fryksas_root cap_area =
     root_index_head @ root_index_item (lit ''fryksas'') cap_area @ root_index_tail"

definition half_record :: "(unit yval \<times> unit yval) list" where
  "half_record =
     [(YStr (lit ''title''), YStr (lit ''Rundan'')),
      (YStr (lit ''slug''), YStr (lit ''runda-1'')),
      (YStr (lit ''distance_km''), YFloat (Finite ())),
      (YStr (lit ''elevation_m''), YInt (- 12))]"

text \<open>
  Two enumerations of the same directory tree: the entries of the \<^verbatim>\<open>areas\<close> directory come
  in the same order, and each metadata directory holds the same files, with different names,
  in any order.
\<close>

fun same_entry :: "dir_entry \<Rightarrow> dir_entry \<Rightarrow> bool" where
  "same_entry RegularFile RegularFile = True"
| "same_entry (Directory md) (Directory md') = (mset md = mset md' \<and> distinct (map fst md))"
| "same_entry RegularFile (Directory md') = False"
| "same_entry (Directory md) RegularFile = False"

definition same_tree :: "(pystr \<times> dir_entry) list \<Rightarrow> (pystr \<times> dir_entry) list \<Rightarrow> bool" where
  "same_tree t t' =
     list_all2 (\<lambda>(name, entry) (name', entry'). name = name' \<and> same_entry entry entry') t t'"

text \<open>A parser for the examples that rejects the text \<^verbatim>\<open>title: [\<close>, and an \<^verbatim>\<open>areas\<close>
  directory with two areas around a regular file.\<close>

definition strict_lib :: "unit pylib" where
  "strict_lib =
     example_lib (\<lambda>text. if text = lit ''title: ['' then Inl YAMLError else Inr (YDict good_record))"


text \<open>A parser for the examples that reads any text as a record whose title and slug are
  that text; and an area whose files reach the run in the opposite order.\<close>

definition titled_lib :: "unit pylib" where
  "titled_lib =
     example_lib (\<lambda>text. Inr (YDict [(YStr (lit ''title''), YStr text), (YStr (lit ''slug''), YStr text)]))"

definition one_area :: "md_file list \<Rightarrow> (pystr \<times> dir_entry) list" where
  "one_area metadata_dir = [(lit ''fryksas'', Directory metadata_dir)]"

text \<open>An area with a well-formed route, followed by an area with a malformed file.\<close>

definition good_then_bad :: "(pystr \<times> dir_entry) list" where
  "good_then_bad =
     [(lit ''varmland'', Directory [(lit ''a.md'', lit ''title: Rundan'')]),
      (lit ''fryksas'', Directory [(lit ''b.md'', lit ''title: Rundan''), (lit ''c.md'', lit ''title: ['')])]"

definition varmland_index :: pystr where
  \<open>varmland_index =
     area_index_html (lit ''Varmland'')
       (lit ''[{"title": "Rundan", "slug": "runda-1", "distance": null, "elevation": null, "asphalt": null, "gravel": null}]'')\<close>

section \<open>Basic facts\<close>

lemma and_then_Inl [simp]: "and_then (Inl e) f = Inl e"
  by (simp add: and_then_def)

lemma and_then_Inr [simp]: "and_then (Inr x) f = f x"
  by (simp add: and_then_def)

lemma and_then_eq_Inr:
  "and_then m f = Inr y \<longleftrightarrow> (\<exists>x. m = Inr x \<and> f x = Inr y)"
  by (cases m) simp_all

lemma get_YDict [simp]: "get (YDict items) key = Inr (dict_get items key YNull)"
  by (simp add: get_def)

lemma dict_get_None: "lookup items key = None \<Longrightarrow> dict_get items key dflt = dflt"
  by (simp add: dict_get_def)

lemma dict_get_Some: "lookup items key = Some v \<Longrightarrow> dict_get items key dflt = v"
  by (simp add: dict_get_def)

lemma lit_append: "lit (a @ b) = lit a @ lit b"
  by (simp add: lit_def)

subsection \<open>Records without a title or a slug\<close>

lemma route_entry_missing:
  assumes "lookup items (lit ''title'') = None \<or> lookup items (lit ''slug'') = None"
  shows "route_entry (YDict items) = Inl (KeyError (lit ''title''))
       \<or> route_entry (YDict items) = Inl (KeyError (lit ''slug''))"
  using assms by (auto simp: route_entry_def split: option.splits)

lemma route_page_missing:
  assumes "lookup items (lit ''title'') = None \<or> lookup items (lit ''slug'') = None"
  shows "route_page L (YDict items) = Inl (KeyError (lit ''title''))
       \<or> route_page L (YDict items) = Inl (KeyError (lit ''slug''))"
  using assms by (auto simp: route_page_def split: option.splits)

lemma route_entry_Inr_dict:
  assumes "route_entry r = Inr entry"
  shows "\<exists>items title slug. r = YDict items \<and> lookup items (lit ''title'') = Some title
           \<and> lookup items (lit ''slug'') = Some slug"
  using assms by (cases r) (auto simp: route_entry_def split: option.splits)

lemma route_entry_dict_error:
  "route_entry (YDict items) = Inl e \<Longrightarrow> \<exists>k. e = KeyError k"
  by (auto simp: route_entry_def split: option.splits)

subsection \<open>The list comprehension\<close>

lemma route_entries_Inr:
  "route_entries routes = Inr entries \<Longrightarrow>
     length entries = length routes
     \<and> (\<forall>i < length routes. route_entry (routes ! i) = Inr (entries ! i))"
proof (induction routes arbitrary: entries)
  case Nil
  then show ?case by simp
next
  case (Cons r routes)
  then obtain entry rest where e: "route_entry r = Inr entry" "route_entries routes = Inr rest"
      "entries = entry # rest"
    by (auto split: sum.splits)
  with Cons.IH [of rest] show ?case
    by (auto simp: nth_Cons split: nat.splits)
qed

lemma route_entries_Inr_member:
  assumes "route_entries routes = Inr entries" "r \<in> set routes"
  shows "\<exists>entry. route_entry r = Inr entry"
  using assms route_entries_Inr [OF assms(1)] by (auto simp: in_set_conv_nth)

lemma route_entries_fail:
  "r \<in> set routes \<Longrightarrow> route_entry r = Inl e \<Longrightarrow> \<exists>e'. route_entries routes = Inl e'"
  by (induction routes) (auto split: sum.splits)

lemma route_entries_dicts_error:
  "\<forall>r \<in> set routes. \<exists>items. r = YDict items \<Longrightarrow> route_entries routes = Inl e
     \<Longrightarrow> \<exists>k. e = KeyError k"
proof (induction routes)
  case Nil
  then show ?case by simp
next
  case (Cons r routes)
  then obtain items where r: "r = YDict items" by auto
  show ?case
  proof (cases "route_entry r")
    case (Inl e')
    with Cons.prems r show ?thesis using route_entry_dict_error [of items e'] by simp
  next
    case (Inr entry)
    with Cons show ?thesis by (auto split: sum.splits)
  qed
qed

lemma generate_area_index_Inr:
  "generate_area_index L area routes p out = Inr out' \<longleftrightarrow>
     (\<exists>entries routes_json. route_entries routes = Inr entries
        \<and> dumps L (YList entries) = Inr routes_json
        \<and> out' = out @ [(p, area_index_html (capitalize L area) routes_json)])"
  by (auto simp: generate_area_index_def and_then_eq_Inr write_text_def)

subsection \<open>The driver\<close>

lemma main_loop_None:
  "main_loop L ds areas out = (None, areas', out') \<Longrightarrow> (area, Directory md) \<in> set ds \<Longrightarrow>
     \<exists>routes out1 out2. load_routes L md = Inr routes
        \<and> generate_area_index L area routes [lit ''areas'', area, lit ''index.html''] out1 = Inr out2"
proof (induction L ds areas out rule: main_loop.induct)
  case (1 L areas out)
  then show ?case by simp
next
  case (2 L area' rest areas out)
  then show ?case by auto
next
  case (3 L area' metadata_dir rest areas out)
  then show ?case
    by (auto simp: Let_def split: sum.splits prod.splits option.splits)
qed

lemma main_None:
  assumes "fst (main L areas_dir) = None" "(area, Directory md) \<in> set areas_dir"
  shows "\<exists>routes out1 out2. load_routes L md = Inr routes
        \<and> generate_area_index L area routes [lit ''areas'', area, lit ''index.html''] out1 = Inr out2"
proof -
  obtain r areas out where m: "main_loop L areas_dir [] [] = (r, areas, out)"
    by (cases "main_loop L areas_dir [] []") auto
  with assms(1) have "r = None" by (cases r) (auto simp: main_def)
  with m main_loop_None [of L areas_dir "[]" "[]" areas out area md] assms(2) show ?thesis
    by blast
qed

subsection \<open>Evaluating concrete inputs\<close>

lemma lookup_Nil: "lookup [] key = None"
  by (simp add: lookup_def)

lemma lookup_Cons:
  "lookup ((k, v) # items) key = (if k = YStr key then Some v else lookup items key)"
  by (simp add: lookup_def)

lemma lit_Nil: "lit [] = []"
  by (simp add: lit_def)

lemma lit_Cons: "lit (c # cs) = of_char c # lit cs"
  by (simp add: lit_def)

lemmas eval_simps = lookup_Nil lookup_Cons lit_Nil lit_Cons suffix_to_prefix dict_get_def

subsection \<open>Text found in a page\<close>

lemma sublist_concat_window:
  assumes "sublist n (concat (take k (drop i segs)))"
  shows "sublist n (concat segs)"
proof -
  have "concat segs = concat (take i segs) @ concat (take k (drop i segs)) @ concat (drop k (drop i segs))"
    by (metis append_take_drop_id concat_append)
  then have "sublist (concat (take k (drop i segs))) (concat segs)"
    by simp
  with assms show ?thesis
    using sublist_order.order_trans by blast
qed

lemmas search_simps = sublist_Cons_right lit_Cons lit_Nil

lemma distance_line:
  "sublist (lit ''<p><strong>Distans:</strong> '' @ d @ lit '' km</p>'')
     (route_page_html t d e a g ms dh ph gpx)"
  unfolding route_page_html_def
  by (rule sublist_concat_window [where i = 24 and k = 3]) (simp add: search_simps)

lemma elevation_line:
  "sublist (lit ''<p><strong>H'' @ [246] @ lit ''jdmeter:</strong> '' @ e @ lit '' m</p>'')
     (route_page_html t d e a g ms dh ph gpx)"
  unfolding route_page_html_def
  by (rule sublist_concat_window [where i = 27 and k = 5]) (simp add: search_simps)

lemma asphalt_line:
  "sublist (lit ''<p><strong>Andel asfalt:</strong> '' @ a @ lit '' %</p>'')
     (route_page_html t d e a g ms dh ph gpx)"
  unfolding route_page_html_def
  by (rule sublist_concat_window [where i = 32 and k = 3]) (simp add: search_simps)

lemma gravel_line:
  "sublist (lit ''<p><strong>Andel grus:</strong> '' @ g @ lit '' %</p>'')
     (route_page_html t d e a g ms dh ph gpx)"
  unfolding route_page_html_def
  by (rule sublist_concat_window [where i = 35 and k = 3]) (simp add: search_simps)


lemma route_page_Inr:
  assumes "route_page L (YDict items) = Inr html"
  shows "\<exists>title dh imgs. lookup items (lit ''title'') = Some title
     \<and> html = route_page_html (py_str L title) (py_str L (dict_get items (lit ''distance_km'') YNull))
         (py_str L (dict_get items (lit ''elevation_m'') YNull))
         (py_str L (dict_get items (lit ''asphalt_pct'') YNull))
         (py_str L (dict_get items (lit ''gravel_pct'') YNull))
         (map_script_format (py_str L (dict_get items (lit ''gpx_file'') YNull))) dh
         (concat (map (\<lambda>img. photo_item (py_str L img) (py_str L title)) imgs))
         (py_str L (dict_get items (lit ''gpx_file'') YNull))"
proof (cases "lookup items (lit ''title'')")
  case None
  with assms show ?thesis by (simp add: route_page_def)
next
  case title: (Some title)
  show ?thesis
  proof (cases "lookup items (lit ''slug'')")
    case None
    with assms title show ?thesis by (simp add: route_page_def)
  next
    case (Some slug)
    with assms title show ?thesis
      by (auto simp: route_page_def and_then_eq_Inr Let_def)
  qed
qed

subsection \<open>Stripping whitespace and delimiter markers\<close>

lemma dropWhile_keep: "b \<noteq> [] \<Longrightarrow> \<not> P (hd b) \<Longrightarrow> dropWhile P (b @ r) = b @ r"
  by (cases b) simp_all

lemma dropWhile_skip: "\<forall>c \<in> set l. P c \<Longrightarrow> dropWhile P (l @ x) = dropWhile P x"
  by (induction l) simp_all

lemma strip_both:
  assumes "\<forall>c \<in> set l. P c" "\<forall>c \<in> set r. P c" "b \<noteq> []" "\<not> P (hd b)" "\<not> P (last b)"
  shows "rev (dropWhile P (rev (dropWhile P (l @ b @ r)))) = b"
proof -
  have "dropWhile P (l @ b @ r) = b @ r"
    using assms(1,3,4) by (simp add: dropWhile_skip dropWhile_keep)
  moreover have "dropWhile P (rev r @ rev b) = rev b"
    using assms(2,3,5) dropWhile_keep [of "rev b" P "[]"]
    by (simp add: dropWhile_skip hd_rev)
  ultimately show ?thesis by simp
qed

lemma py_strip_trimmed:
  assumes "\<forall>c \<in> set l. isspace c" "\<forall>c \<in> set r. isspace c" "b \<noteq> []"
    "\<not> isspace (hd b)" "\<not> isspace (last b)"
  shows "py_strip (l @ b @ r) = b"
  unfolding py_strip_def using assms by (rule strip_both)

lemma dash_not_space: "\<not> isspace 0x2D"
  by (simp add: isspace_def)

lemma set_dashes: "set (lit ''---'') = {0x2D}" "set (lit ''-'') = {0x2D}"
  by (simp_all add: lit_def)

lemma hd_last_dashes: "hd (lit ''---'' @ x) = 0x2D" "last (y @ lit ''---'') = 0x2D" "lit ''---'' \<noteq> []"
  by (simp_all add: lit_def)

lemma strip_no_leading_marker:
  assumes "\<forall>c \<in> set w1. isspace c" "\<forall>c \<in> set w4. isspace c" "text \<noteq> []"
    "\<not> isspace (hd text)" "\<not> isspace (last text)" "\<not> startswith text (lit ''---'')"
  shows "strip_delimiters (w1 @ text @ w4) = text"
  using assms by (simp add: strip_delimiters_def py_strip_trimmed)

lemma strip_chars_dash:
  assumes "\<forall>c \<in> set t. c = 0x2D" "b \<noteq> []" "hd b \<noteq> 0x2D" "last b \<noteq> 0x2D"
  shows "py_strip_chars (lit ''-'') (lit ''---'' @ b @ t) = b"
  unfolding py_strip_chars_def
  by (rule strip_both) (use assms in \<open>simp_all add: set_dashes\<close>)

lemma strip_leading_marker:
  assumes ws: "\<forall>c \<in> set w1. isspace c" "\<forall>c \<in> set w2. isspace c" "\<forall>c \<in> set w3. isspace c"
      "\<forall>c \<in> set w4. isspace c"
    and body: "body \<noteq> []" "\<not> isspace (hd body)" "\<not> isspace (last body)"
      "hd body \<noteq> 0x2D" "last body \<noteq> 0x2D"
  shows "strip_delimiters (w1 @ lit ''---'' @ w2 @ body @ w3 @ lit ''---'' @ w4) = body"
    and "strip_delimiters (w1 @ lit ''---'' @ w2 @ body @ w4) = body"
proof -
  have mid: "w2 @ body @ w \<noteq> []" "hd (w2 @ body @ w) \<noteq> 0x2D" for w
    using ws(2) body dash_not_space by (cases w2; force)+
  have mid_last: "last (w2 @ body @ w3) \<noteq> 0x2D"
    using ws(3) body dash_not_space by (cases w3 rule: rev_cases; force)
  have mid_last': "last (w2 @ body) \<noteq> 0x2D"
    using body by simp
  have inner: "py_strip (w2 @ body @ w) = body" if "\<forall>c \<in> set w. isspace c" for w
    using ws(2) that body by (simp add: py_strip_trimmed)
  let ?both = "lit ''---'' @ (w2 @ body @ w3) @ lit ''---''"
  have "py_strip (w1 @ ?both @ w4) = ?both"
    by (rule py_strip_trimmed) (use ws dash_not_space in \<open>simp_all add: hd_last_dashes lit_def\<close>)
  moreover have "startswith ?both (lit ''---'')"
    by (simp add: startswith_def)
  moreover have "py_strip_chars (lit ''-'') ?both = w2 @ body @ w3"
    by (rule strip_chars_dash) (use mid [of w3] mid_last in \<open>simp_all add: set_dashes\<close>)
  ultimately show "strip_delimiters (w1 @ lit ''---'' @ w2 @ body @ w3 @ lit ''---'' @ w4) = body"
    using inner [OF ws(3)] by (simp add: strip_delimiters_def)
  let ?lead = "lit ''---'' @ (w2 @ body) @ []"
  have "py_strip (w1 @ (lit ''---'' @ w2 @ body) @ w4) = lit ''---'' @ w2 @ body"
    by (rule py_strip_trimmed) (use ws body dash_not_space in \<open>simp_all add: hd_last_dashes lit_def\<close>)
  moreover have "startswith (lit ''---'' @ w2 @ body) (lit ''---'')"
    by (simp add: startswith_def)
  moreover have "py_strip_chars (lit ''-'') ?lead = w2 @ body"
    by (rule strip_chars_dash) (use mid [of "[]"] mid_last' in simp_all)
  ultimately show "strip_delimiters (w1 @ lit ''---'' @ w2 @ body @ w4) = body"
    using inner [of "[]"] by (simp add: strip_delimiters_def)
qed

text \<open>\<^verbatim>\<open>strip("-")\<close> removes every dash at the two ends, not only a marker: after a
  leading marker, a document that ends with a dash loses it.\<close>

lemma strip_delimiters_trailing_dash:
  "strip_delimiters (lit ''---\<newline>title: a-\<newline>'') = lit ''title: a''"
  by (simp add: strip_delimiters_def py_strip_def py_strip_chars_def startswith_def isspace_def
      lit_Cons lit_Nil)

lemma load_routes_single:
  assumes "suffix (lit ''.md'') name"
  shows "load_routes L [(name, text)]
       = and_then (safe_load L (strip_delimiters text)) (\<lambda>meta. Inr [meta])"
  using assms by (simp add: load_routes_def glob_md_def and_then_def split: sum.splits)

subsection \<open>The loading loop\<close>

lemma load_loop_Inr:
  "load_loop L fs acc = Inr routes \<Longrightarrow>
     \<exists>new. routes = acc @ new \<and> length new = length fs
       \<and> (\<forall>i < length fs. safe_load L (strip_delimiters (snd (fs ! i))) = Inr (new ! i))"
proof (induction L fs acc arbitrary: routes rule: load_loop.induct)
  case (1 L acc)
  then show ?case by simp
next
  case (2 L name content rest acc)
  then obtain meta where m: "safe_load L (strip_delimiters content) = Inr meta"
      "load_loop L rest (acc @ [meta]) = Inr routes"
    by (auto split: sum.splits)
  from "2.IH" [OF m] obtain new where new: "routes = (acc @ [meta]) @ new" "length new = length rest"
      "\<forall>i < length rest. safe_load L (strip_delimiters (snd (rest ! i))) = Inr (new ! i)"
    by blast
  show ?case
  proof (intro exI [of _ "meta # new"] conjI allI impI)
    show "routes = acc @ meta # new" using new(1) by simp
    show "length (meta # new) = length ((name, content) # rest)" using new(2) by simp
    fix i assume "i < length ((name, content) # rest)"
    then show "safe_load L (strip_delimiters (snd (((name, content) # rest) ! i))) = Inr ((meta # new) ! i)"
      using m(1) new(3) by (cases i) simp_all
  qed
qed

subsection \<open>The embedded JSON text\<close>





lemma dumps_list_Inr:
  "dumps_list L xs = Inr texts \<Longrightarrow>
     length texts = length xs \<and> (\<forall>i < length xs. dumps L (xs ! i) = Inr (texts ! i))"
proof (induction xs arbitrary: texts)
  case Nil
  then show ?case by simp
next
  case (Cons x xs)
  then obtain t ts where t: "dumps L x = Inr t" "dumps_list L xs = Inr ts" "texts = t # ts"
    by (auto split: sum.splits)
  with Cons.IH [of ts] show ?case
    by (auto simp: nth_Cons split: nat.splits)
qed

lemma dumps_YList_Inr:
  assumes "dumps L (YList xs) = Inr js"
  shows "\<exists>texts. js = lit ''['' @ join (lit '', '') texts @ lit '']'' \<and> length texts = length xs
           \<and> (\<forall>i < length xs. dumps L (xs ! i) = Inr (texts ! i))"
  using assms dumps_list_Inr [of L xs] by (auto split: sum.splits)




subsection \<open>The area index\<close>

lemma routes_line:
  "sublist (lit ''const routes = '' @ routes_json @ lit '';'') (area_index_html cap_area routes_json)"
  unfolding area_index_html_def
  by (rule sublist_concat_window [where i = 33 and k = 3]) (simp add: search_simps)

lemma load_loop_Nil: "load_loop L [] [] = Inr []"
  by simp

subsection \<open>The scenario of one route\<close>

lemma runda_page_texts:
  \<open>sublist (lit ''Rundan'') runda_page\<close>
  \<open>sublist (lit ''55 km'') runda_page\<close>
  \<open>sublist (lit ''600 m'') runda_page\<close>
  \<open>sublist (lit ''<ul class='photo-gallery'></ul>'') runda_page\<close>
  \<open>sublist (lit ''<a href='../../gpx/runda-1.gpx'>'') runda_page\<close>
  unfolding runda_page_def route_page_html_def
  subgoal by (rule sublist_concat_window [where i = 17 and k = 3]) (simp add: search_simps)
  subgoal by (rule sublist_concat_window [where i = 24 and k = 3]) (simp add: search_simps)
  subgoal by (rule sublist_concat_window [where i = 27 and k = 5]) (simp add: search_simps)
  subgoal by (rule sublist_concat_window [where i = 48 and k = 3]) (simp add: search_simps)
  subgoal by (rule sublist_concat_window [where i = 52 and k = 4]) (simp add: search_simps)
  done

lemma runda_index_text:
  \<open>sublist (lit ''const routes = [{"title": "Rundan", "slug": "runda-1", "distance": 55, "elevation": 600, "asphalt": null, "gravel": null}];'')
     (runda_index cap_area)\<close>
  using routes_line [of \<open>lit ''[{"title": "Rundan", "slug": "runda-1", "distance": 55, "elevation": 600, "asphalt": null, "gravel": null}]''\<close> cap_area]
  by (simp add: runda_index_def lit_append [symmetric])

lemma runda_run:
  assumes "safe_load L (strip_delimiters content) = Inr (YDict runda)"
    and "suffix (lit ''.md'') name"
  shows "main L [(lit ''fryksas'', Directory [(name, content)])]
       = (None,
          [([lit ''areas'', lit ''fryksas'', lit ''index.html''],
            runda_index (capitalize L (lit ''fryksas''))),
           ([lit ''areas'', lit ''fryksas'', lit ''routes'', lit ''runda-1.html''], runda_page),
           ([lit ''index.html''], fryksas_root (capitalize L (lit ''fryksas'')))])"
proof -
  have 1: "load_routes L [(name, content)] = Inr [YDict runda]"
    using assms by (simp add: load_routes_single)
  have 2: "generate_area_index L (lit ''fryksas'') [YDict runda]
        [lit ''areas'', lit ''fryksas'', lit ''index.html''] []
      = Inr [([lit ''areas'', lit ''fryksas'', lit ''index.html''],
              runda_index (capitalize L (lit ''fryksas'')))]"
    by (simp add: generate_area_index_def route_entry_def runda_def eval_simps write_text_def
        encode_basestring_def escape_char_def int_str_def nat_str.simps runda_index_def)
  have 3: "route_page L (YDict runda) = Inr runda_page"
    by (simp add: route_page_def runda_def eval_simps runda_page_def replace_newlines_def
        int_str_def nat_str.simps)
  have 4: "lookup runda (lit ''slug'') = Some (YStr (lit ''runda-1''))"
    by (simp add: runda_def eval_simps)
  show ?thesis
    by (simp add: main_def 1 2 3 4 generate_route_page_def generate_root_index_def write_text_def
        fryksas_root_def lit_append [symmetric])
qed

subsection \<open>The loop over the areas\<close>

lemma main_loop_append:
  "main_loop L (xs @ ys) areas out =
     (case main_loop L xs areas out of
        (None, areas', out') \<Rightarrow> main_loop L ys areas' out'
      | (Some e, areas', out') \<Rightarrow> (Some e, areas', out'))"
proof (induction L xs areas out rule: main_loop.induct)
  case (1 L areas out)
  then show ?case by simp
next
  case (2 L area rest areas out)
  then show ?case by simp
next
  case (3 L area metadata_dir rest areas out)
  then show ?case
    by (simp add: Let_def split: sum.splits prod.splits option.splits)
qed




lemma load_loop_fail:
  "(n, c) \<in> set fs \<Longrightarrow> safe_load L (strip_delimiters c) = Inl e \<Longrightarrow>
     \<exists>e' n' c'. load_loop L fs acc = Inl e' \<and> (n', c') \<in> set fs
        \<and> safe_load L (strip_delimiters c') = Inl e'"
proof (induction L fs acc rule: load_loop.induct)
  case (1 L routes)
  then show ?case by simp
next
  case (2 L name content rest routes)
  show ?case
  proof (cases "safe_load L (strip_delimiters content)")
    case (Inl e')
    then show ?thesis by auto
  next
    case (Inr meta)
    with "2.prems" have "(n, c) \<in> set rest" by auto
    from "2.IH" [OF Inr this "2.prems"(2)] Inr show ?thesis by auto
  qed
qed

lemma load_routes_fail:
  assumes "(n, c) \<in> set (glob_md metadata_dir)" "safe_load L (strip_delimiters c) = Inl e"
  shows "\<exists>e'. load_routes L metadata_dir = Inl e'
      \<and> (\<exists>(n', c') \<in> set (glob_md metadata_dir). safe_load L (strip_delimiters c') = Inl e')"
proof -
  from assms(1) have "(n, c) \<in> set (sort_key fst (glob_md metadata_dir))" by simp
  from load_loop_fail [OF this assms(2), of "[]"] show ?thesis
    by (auto simp: load_routes_def)
qed

lemma commit_map_add: "commit fs out = fs ++ map_of (rev out)"
  unfolding commit_def
proof (induction out arbitrary: fs)
  case Nil
  then show ?case by simp
next
  case (Cons w out)
  obtain p t where w: "w = (p, t)" by (cases w)
  have "fold (\<lambda>(p, text) m. m(p \<mapsto> text)) (w # out) fs
      = fold (\<lambda>(p, text) m. m(p \<mapsto> text)) out (fs(p \<mapsto> t))"
    by (simp add: w)
  also have "\<dots> = fs(p \<mapsto> t) ++ map_of (rev out)"
    by (rule Cons)
  also have "\<dots> = fs ++ map_of (rev (w # out))"
    by (rule ext) (simp add: w map_add_def split: option.splits)
  finally show ?case .
qed

lemma commit_twice: "commit (commit fs out) out = commit fs out"
  by (rule ext) (simp add: commit_map_add map_add_def split: option.splits)

lemma filter_fst_single:
  "k \<in> set zs \<Longrightarrow> distinct (map fst zs) \<Longrightarrow> filter (\<lambda>x. fst k = fst x) zs = [k]"
proof (induction zs)
  case Nil
  then show ?case by simp
next
  case (Cons z zs)
  then show ?case by (auto simp: filter_empty_conv rev_image_eqI)
qed

lemma sort_key_fst_unique:
  fixes xs ys :: "('a :: linorder \<times> 'b) list"
  assumes "mset xs = mset ys" "distinct (map fst xs)"
  shows "sort_key fst xs = sort_key fst ys"
proof -
  have same: "set xs = set ys"
    using assms(1) by (rule mset_eq_setD)
  have "mset (map fst xs) = mset (map fst ys)"
    using assms(1) by simp
  with assms(2) have d: "distinct (map fst ys)"
    by (metis mset_eq_imp_distinct_iff)
  have "mset (map fst (sort_key fst xs)) = mset (map fst xs)"
    by simp
  with assms(2) have d': "distinct (map fst (sort_key fst xs))"
    by (metis mset_eq_imp_distinct_iff)
  have "sort_key fst ys = sort_key fst xs"
  proof (rule properties_for_sort_key)
    show "mset (sort_key fst xs) = mset ys" using assms(1) by simp
    show "sorted (map fst (sort_key fst xs))" by simp
    fix k assume k: "k \<in> set (sort_key fst xs)"
    then have "k \<in> set ys" using same by simp
    from filter_fst_single [OF k d'] filter_fst_single [OF this d]
    show "filter (\<lambda>x. fst k = fst x) (sort_key fst xs) = filter (\<lambda>x. fst k = fst x) ys"
      by simp
  qed
  then show ?thesis by simp
qed

lemma load_routes_order_free:
  assumes "mset md = mset md'" "distinct (map fst md)"
  shows "load_routes L md' = load_routes L md"
proof -
  have "mset (glob_md md) = mset (glob_md md')"
    using assms(1) by (simp add: glob_md_def)
  moreover have "distinct (map fst (glob_md md))"
    using assms(2) by (simp add: glob_md_def distinct_map_filter)
  ultimately show ?thesis
    by (simp add: load_routes_def sort_key_fst_unique)
qed

lemma main_loop_same_tree:
  "same_tree t t' \<Longrightarrow> main_loop L t' areas out = main_loop L t areas out"
  unfolding same_tree_def
proof (induction t t' arbitrary: areas out rule: list_all2_induct)
  case Nil
  then show ?case by simp
next
  case (Cons x xs y ys)
  obtain name entry where x: "x = (name, entry)" by (cases x)
  obtain name' entry' where y: "y = (name', entry')" by (cases y)
  from Cons(1) x y have n: "name' = name" and s: "same_entry entry entry'" by auto
  show ?case
  proof (cases entry)
    case RegularFile
    with s have "entry' = RegularFile" by (cases entry') auto
    with RegularFile x y n Cons.IH show ?thesis by simp
  next
    case (Directory md)
    with s obtain md' where e': "entry' = Directory md'" by (cases entry') auto
    with s Directory have "load_routes L md' = load_routes L md"
      by (simp add: load_routes_order_free)
    with Directory e' x y n Cons.IH show ?thesis
      by (simp add: Let_def split: sum.splits prod.splits option.splits)
  qed
qed

section \<open>The claims\<close>

text \<open>
  C10. A route record without \<^verbatim>\<open>title\<close> or without \<^verbatim>\<open>slug\<close> makes page generation fail
  with a key lookup failure: \<^verbatim>\<open>generate_route_page\<close> raises \<^verbatim>\<open>KeyError\<close>;
  \<^verbatim>\<open>generate_area_index\<close> fails on every route list that holds the record, with a
  \<^verbatim>\<open>KeyError\<close> when all routes are mappings; the driver's path computation raises
  \<^verbatim>\<open>KeyError\<close> for a missing slug. A record with both fields and none of the optional
  ones is accepted. When a run completes, every record loaded for any area is a mapping
  with both \<^verbatim>\<open>title\<close> and \<^verbatim>\<open>slug\<close>.
\<close>

theorem required_fields:
  "(lookup items (lit ''title'') = None \<or> lookup items (lit ''slug'') = None \<longrightarrow>
      (\<exists>k. generate_route_page L area (YDict items) p out = Inl (KeyError k))
    \<and> (YDict items \<in> set routes \<longrightarrow>
          (\<exists>e. generate_area_index L area routes p out = Inl e)
        \<and> ((\<forall>r \<in> set routes. \<exists>its. r = YDict its) \<longrightarrow>
              (\<exists>k. generate_area_index L area routes p out = Inl (KeyError k)))))
 \<and> (lookup items (lit ''slug'') = None \<longrightarrow>
      route_pages L area (YDict items # rest) out = (Some (KeyError (lit ''slug'')), out))
 \<and> (lookup items' (lit ''title'') = Some title \<and> lookup items' (lit ''slug'') = Some slug
      \<and> (\<forall>k \<in> set optional_keys. lookup items' k = None) \<longrightarrow>
      (\<exists>entry. route_entry (YDict items') = Inr entry)
    \<and> (\<exists>html. route_page L (YDict items') = Inr html))
 \<and> (fst (main L areas_dir) = None \<and> (area', Directory md) \<in> set areas_dir
      \<and> load_routes L md = Inr routes' \<and> r \<in> set routes' \<longrightarrow>
      (\<exists>its t s. r = YDict its \<and> lookup its (lit ''title'') = Some t
         \<and> lookup its (lit ''slug'') = Some s))"
proof (intro conjI impI)
  assume a: "lookup items (lit ''title'') = None \<or> lookup items (lit ''slug'') = None"
  from route_page_missing [OF a, of L]
  show "\<exists>k. generate_route_page L area (YDict items) p out = Inl (KeyError k)"
    by (auto simp: generate_route_page_def)
  assume m: "YDict items \<in> set routes"
  from route_entry_missing [OF a] obtain e where e: "route_entry (YDict items) = Inl e" by auto
  from route_entries_fail [OF m e] obtain e' where e': "route_entries routes = Inl e'" by auto
  then show "\<exists>e. generate_area_index L area routes p out = Inl e"
    by (simp add: generate_area_index_def)
  assume "\<forall>r \<in> set routes. \<exists>its. r = YDict its"
  from route_entries_dicts_error [OF this e'] e'
  show "\<exists>k. generate_area_index L area routes p out = Inl (KeyError k)"
    by (auto simp: generate_area_index_def)
next
  assume "lookup items (lit ''slug'') = None"
  then show "route_pages L area (YDict items # rest) out = (Some (KeyError (lit ''slug'')), out)"
    by simp
next
  assume a: "lookup items' (lit ''title'') = Some title \<and> lookup items' (lit ''slug'') = Some slug
      \<and> (\<forall>k \<in> set optional_keys. lookup items' k = None)"
  then show "\<exists>entry. route_entry (YDict items') = Inr entry"
    by (simp add: route_entry_def)
  from a show "\<exists>html. route_page L (YDict items') = Inr html"
    by (simp add: route_page_def optional_keys_def Let_def dict_get_def)
next
  assume a: "fst (main L areas_dir) = None \<and> (area', Directory md) \<in> set areas_dir
      \<and> load_routes L md = Inr routes' \<and> r \<in> set routes'"
  with main_None [of L areas_dir area' md] obtain out1 out2 where
    "generate_area_index L area' routes' [lit ''areas'', area', lit ''index.html''] out1 = Inr out2"
    by auto
  then obtain entries where "route_entries routes' = Inr entries"
    by (auto simp: generate_area_index_Inr)
  from route_entries_Inr_member [OF this, of r] a obtain entry where "route_entry r = Inr entry"
    by auto
  from route_entry_Inr_dict [OF this]
  show "\<exists>its t s. r = YDict its \<and> lookup its (lit ''title'') = Some t
         \<and> lookup its (lit ''slug'') = Some s"
    by blast
qed

theorem required_fields_witness:
  "lookup no_slug_record (lit ''slug'') = None
   \<and> generate_route_page (example_lib (\<lambda>text. Inr (YDict good_record))) (lit ''fryksas'')
        (YDict no_slug_record) [] [] = Inl (KeyError (lit ''slug''))
   \<and> generate_area_index (example_lib (\<lambda>text. Inr (YDict good_record))) (lit ''fryksas'')
        [YDict no_slug_record] [] [] = Inl (KeyError (lit ''slug''))
   \<and> route_pages (example_lib (\<lambda>text. Inr (YDict good_record))) (lit ''fryksas'')
        [YDict no_slug_record] [] = (Some (KeyError (lit ''slug'')), [])
   \<and> lookup good_record (lit ''title'') = Some (YStr (lit ''Rundan''))
   \<and> lookup good_record (lit ''slug'') = Some (YStr (lit ''runda-1''))
   \<and> (\<exists>html. route_page (example_lib (\<lambda>text. Inr (YDict good_record))) (YDict good_record)
          = Inr html)
   \<and> fst (main (example_lib (\<lambda>text. Inr (YDict good_record)))
              [(lit ''fryksas'', Directory [(lit ''runda-1.md'', lit ''title: Rundan'')])]) = None
   \<and> load_routes (example_lib (\<lambda>text. Inr (YDict good_record)))
        [(lit ''runda-1.md'', lit ''title: Rundan'')] = Inr [YDict good_record]"
  using required_fields [of no_slug_record "example_lib (\<lambda>text. Inr (YDict good_record))"
      "lit ''fryksas''" "[]" "[]" "[YDict no_slug_record]" "[]" good_record
      "YStr (lit ''Rundan'')" "YStr (lit ''runda-1'')"
      "[(lit ''fryksas'', Directory [(lit ''runda-1.md'', lit ''title: Rundan'')])]"
      "lit ''fryksas''" "[(lit ''runda-1.md'', lit ''title: Rundan'')]" "[YDict good_record]"
      "YDict good_record"]
  by (simp add: eval_simps no_slug_record_def good_record_def example_lib_def optional_keys_def
      generate_route_page_def route_page_def generate_area_index_def route_entry_def
      main_def load_routes_def glob_md_def)

text \<open>
  C1 (as amended). When one of the optional numeric fields \<^verbatim>\<open>distance_km\<close>,
  \<^verbatim>\<open>elevation_m\<close>, \<^verbatim>\<open>asphalt_pct\<close>, \<^verbatim>\<open>gravel_pct\<close> is absent from a route record,
  the route page is the template with the text \<^verbatim>\<open>None\<close> at the place of that fact
  (Python's rendering of the absent value), so the page shows for instance
  \<^verbatim>\<open>Distans: None km\<close>; no number is substituted.
\<close>

theorem absent_fact_rendered_as_None:
  assumes "route_page L (YDict items) = Inr html"
  shows "(\<exists>title distance elevation asphalt gravel map_script description_html photo_items gpx_file.
            html = route_page_html title distance elevation asphalt gravel map_script
                     description_html photo_items gpx_file
          \<and> (lookup items (lit ''distance_km'') = None \<longrightarrow> distance = lit ''None'')
          \<and> (lookup items (lit ''elevation_m'') = None \<longrightarrow> elevation = lit ''None'')
          \<and> (lookup items (lit ''asphalt_pct'') = None \<longrightarrow> asphalt = lit ''None'')
          \<and> (lookup items (lit ''gravel_pct'') = None \<longrightarrow> gravel = lit ''None''))
       \<and> (lookup items (lit ''distance_km'') = None \<longrightarrow>
            sublist (lit ''<p><strong>Distans:</strong> None km</p>'') html)
       \<and> (lookup items (lit ''elevation_m'') = None \<longrightarrow>
            sublist (lit ''<p><strong>H'' @ [246] @ lit ''jdmeter:</strong> None m</p>'') html)
       \<and> (lookup items (lit ''asphalt_pct'') = None \<longrightarrow>
            sublist (lit ''<p><strong>Andel asfalt:</strong> None %</p>'') html)
       \<and> (lookup items (lit ''gravel_pct'') = None \<longrightarrow>
            sublist (lit ''<p><strong>Andel grus:</strong> None %</p>'') html)"
proof -
  from route_page_Inr [OF assms] obtain title dh imgs where
    html: "html = route_page_html (py_str L title) (py_str L (dict_get items (lit ''distance_km'') YNull))
         (py_str L (dict_get items (lit ''elevation_m'') YNull)) (py_str L (dict_get items (lit ''asphalt_pct'') YNull))
         (py_str L (dict_get items (lit ''gravel_pct'') YNull))
         (map_script_format (py_str L (dict_get items (lit ''gpx_file'') YNull))) dh
         (concat (map (\<lambda>img. photo_item (py_str L img) (py_str L title)) imgs))
         (py_str L (dict_get items (lit ''gpx_file'') YNull))"
    by blast
  have none: "lookup items key = None \<Longrightarrow> py_str L (dict_get items key YNull) = lit ''None''" for key
    by (simp add: dict_get_def)
  have 1: "\<exists>title distance elevation asphalt gravel map_script description_html photo_items gpx_file.
            html = route_page_html title distance elevation asphalt gravel map_script
                     description_html photo_items gpx_file
          \<and> (lookup items (lit ''distance_km'') = None \<longrightarrow> distance = lit ''None'')
          \<and> (lookup items (lit ''elevation_m'') = None \<longrightarrow> elevation = lit ''None'')
          \<and> (lookup items (lit ''asphalt_pct'') = None \<longrightarrow> asphalt = lit ''None'')
          \<and> (lookup items (lit ''gravel_pct'') = None \<longrightarrow> gravel = lit ''None'')"
    using html none by blast
  have 2: "lookup items (lit ''distance_km'') = None \<longrightarrow>
            sublist (lit ''<p><strong>Distans:</strong> None km</p>'') html"
    using distance_line [of "lit ''None''"] none [of "lit ''distance_km''"]
    by (auto simp: html lit_append [symmetric])
  have 3: "lookup items (lit ''elevation_m'') = None \<longrightarrow>
            sublist (lit ''<p><strong>H'' @ [246] @ lit ''jdmeter:</strong> None m</p>'') html"
    using elevation_line [of "lit ''None''"] none [of "lit ''elevation_m''"]
    by (auto simp: html lit_append [symmetric])
  have 4: "lookup items (lit ''asphalt_pct'') = None \<longrightarrow>
            sublist (lit ''<p><strong>Andel asfalt:</strong> None %</p>'') html"
    using asphalt_line [of "lit ''None''"] none [of "lit ''asphalt_pct''"]
    by (auto simp: html lit_append [symmetric])
  have 5: "lookup items (lit ''gravel_pct'') = None \<longrightarrow>
            sublist (lit ''<p><strong>Andel grus:</strong> None %</p>'') html"
    using gravel_line [of "lit ''None''"] none [of "lit ''gravel_pct''"]
    by (auto simp: html lit_append [symmetric])
  from 1 2 3 4 5 show ?thesis by blast
qed

theorem absent_fact_rendered_as_None_witness:
  "route_page (example_lib (\<lambda>text. Inr (YDict good_record))) (YDict good_record) = Inr bare_page
   \<and> lookup good_record (lit ''distance_km'') = None
   \<and> lookup good_record (lit ''elevation_m'') = None
   \<and> lookup good_record (lit ''asphalt_pct'') = None
   \<and> lookup good_record (lit ''gravel_pct'') = None
   \<and> sublist (lit ''<p><strong>Distans:</strong> None km</p>'') bare_page
   \<and> sublist (lit ''<p><strong>H'' @ [246] @ lit ''jdmeter:</strong> None m</p>'') bare_page
   \<and> sublist (lit ''<p><strong>Andel asfalt:</strong> None %</p>'') bare_page
   \<and> sublist (lit ''<p><strong>Andel grus:</strong> None %</p>'') bare_page"
proof -
  have page: "route_page (example_lib (\<lambda>text. Inr (YDict good_record))) (YDict good_record)
      = Inr bare_page"
    by (simp add: route_page_def good_record_def eval_simps bare_page_def replace_newlines_def)
  have absent: "lookup good_record (lit ''distance_km'') = None"
      "lookup good_record (lit ''elevation_m'') = None"
      "lookup good_record (lit ''asphalt_pct'') = None"
      "lookup good_record (lit ''gravel_pct'') = None"
    by (simp_all add: good_record_def eval_simps)
  from absent_fact_rendered_as_None [OF page] absent page show ?thesis
    by simp
qed

text \<open>
  C1 as stated fails: for the record with only a title and a slug the page shows
  \<^verbatim>\<open>Distans: None km\<close>; it does not show the fact as blank text, and it is not the
  template with the empty text at the place of the distance.
\<close>

theorem absent_fact_blank_counterexample:
  "lookup good_record (lit ''distance_km'') = None
   \<and> route_page (example_lib (\<lambda>text. Inr (YDict good_record))) (YDict good_record) = Inr bare_page
   \<and> sublist (lit ''<p><strong>Distans:</strong> None km</p>'') bare_page
   \<and> \<not> sublist (lit ''<p><strong>Distans:</strong>  km</p>'') bare_page
   \<and> bare_page \<noteq> route_page_html (lit ''Rundan'') [] (lit ''None'') (lit ''None'') (lit ''None'')
         (map_script_format (lit ''None'')) [] [] (lit ''None'')"
proof -
  have "lookup good_record (lit ''distance_km'') = None"
    by (simp add: good_record_def eval_simps)
  moreover have "route_page (example_lib (\<lambda>text. Inr (YDict good_record))) (YDict good_record)
      = Inr bare_page"
    by (simp add: route_page_def good_record_def eval_simps bare_page_def replace_newlines_def)
  moreover have "sublist (lit ''<p><strong>Distans:</strong> None km</p>'') bare_page"
    using distance_line [of "lit ''None''"] by (simp add: bare_page_def lit_append [symmetric])
  moreover have "\<not> sublist (lit ''<p><strong>Distans:</strong>  km</p>'') bare_page"
    by (simp add: bare_page_def route_page_html_def map_script_format_def search_simps)
  moreover have "bare_page \<noteq> route_page_html (lit ''Rundan'') [] (lit ''None'') (lit ''None'')
      (lit ''None'') (map_script_format (lit ''None'')) [] [] (lit ''None'')"
    by (simp add: bare_page_def route_page_html_def lit_Cons lit_Nil)
  ultimately show ?thesis by simp
qed

text \<open>
  C3 (as amended). \<^verbatim>\<open>load_routes\<close> trims the whitespace around the text of a metadata
  file and hands the result of \<open>strip_delimiters\<close> to the YAML parser. Only when the trimmed
  text starts with the marker \<^verbatim>\<open>---\<close> are the delimiter markers removed: a file with both
  markers, or with the leading one only, gives the document between them. A text that does
  not start with the marker is parsed as trimmed: with no marker it is the document, and
  with only a trailing marker it is the document still followed by that marker. Here the
  document is any text \<open>body\<close> without whitespace at its ends, and, where a marker is
  removed, without \<^verbatim>\<open>-\<close> at its ends.
\<close>

theorem strip_delimiters_front_matter:
  assumes "\<forall>c \<in> set w1. isspace c" "\<forall>c \<in> set w2. isspace c" "\<forall>c \<in> set w3. isspace c"
      "\<forall>c \<in> set w4. isspace c"
    and "body \<noteq> []" "\<not> isspace (hd body)" "\<not> isspace (last body)"
  shows "(\<not> startswith body (lit ''---'') \<longrightarrow> strip_delimiters (w1 @ body @ w4) = body)
       \<and> (hd body \<noteq> 0x2D \<longrightarrow>
            strip_delimiters (w1 @ body @ w3 @ lit ''---'' @ w4) = body @ w3 @ lit ''---'')
       \<and> (hd body \<noteq> 0x2D \<and> last body \<noteq> 0x2D \<longrightarrow>
            strip_delimiters (w1 @ lit ''---'' @ w2 @ body @ w3 @ lit ''---'' @ w4) = body
          \<and> strip_delimiters (w1 @ lit ''---'' @ w2 @ body @ w4) = body)
       \<and> (suffix (lit ''.md'') name \<longrightarrow>
            load_routes L [(name, text)]
              = and_then (safe_load L (strip_delimiters text)) (\<lambda>meta. Inr [meta]))"
proof (intro conjI impI)
  assume "\<not> startswith body (lit ''---'')"
  with assms show "strip_delimiters (w1 @ body @ w4) = body"
    by (simp add: strip_no_leading_marker)
next
  assume h: "hd body \<noteq> 0x2D"
  let ?text = "body @ w3 @ lit ''---''"
  have "\<not> startswith ?text (lit ''---'')"
    using assms(5) h by (cases body) (simp_all add: startswith_def lit_def)
  moreover have "?text \<noteq> []" "\<not> isspace (hd ?text)" "\<not> isspace (last ?text)"
    using assms(5,6) dash_not_space by (simp_all add: lit_def)
  ultimately have "strip_delimiters (w1 @ ?text @ w4) = ?text"
    using assms(1,4) by (intro strip_no_leading_marker)
  then show "strip_delimiters (w1 @ body @ w3 @ lit ''---'' @ w4) = body @ w3 @ lit ''---''"
    by simp
next
  assume h: "hd body \<noteq> 0x2D \<and> last body \<noteq> 0x2D"
  with assms show "strip_delimiters (w1 @ lit ''---'' @ w2 @ body @ w3 @ lit ''---'' @ w4) = body"
    by (intro strip_leading_marker(1)) simp_all
  from h assms show "strip_delimiters (w1 @ lit ''---'' @ w2 @ body @ w4) = body"
    by (intro strip_leading_marker(2)) simp_all
next
  assume "suffix (lit ''.md'') name"
  then show "load_routes L [(name, text)]
      = and_then (safe_load L (strip_delimiters text)) (\<lambda>meta. Inr [meta])"
    by (rule load_routes_single)
qed

theorem strip_delimiters_front_matter_witness:
  "strip_delimiters (lit ''title: Rundan\<newline>'') = lit ''title: Rundan''
   \<and> strip_delimiters (lit ''title: Rundan\<newline>---\<newline>'') = lit ''title: Rundan\<newline>---''
   \<and> strip_delimiters (lit ''---\<newline>title: Rundan\<newline>---\<newline>'') = lit ''title: Rundan''
   \<and> strip_delimiters (lit ''---\<newline>title: Rundan\<newline>'') = lit ''title: Rundan''
   \<and> load_routes echo_lib [(lit ''runda-1.md'', lit ''---\<newline>title: Rundan\<newline>---\<newline>'')]
       = Inr [YStr (lit ''title: Rundan'')]"
  using strip_delimiters_front_matter [of "[]" "lit ''\<newline>''" "lit ''\<newline>''" "lit ''\<newline>''"
      "lit ''title: Rundan''" "lit ''runda-1.md''" echo_lib
      "lit ''---\<newline>title: Rundan\<newline>---\<newline>''"]
  by (simp add: lit_Cons lit_Nil isspace_def startswith_def suffix_to_prefix echo_lib_def
      example_lib_def)

text \<open>
  C3 as stated fails for a file with only a trailing marker: the marker is not stripped, and
  the parser receives the document followed by \<^verbatim>\<open>---\<close>.
\<close>

theorem trailing_marker_counterexample:
  "strip_delimiters (lit ''title: Rundan\<newline>---\<newline>'') = lit ''title: Rundan\<newline>---''
   \<and> strip_delimiters (lit ''title: Rundan\<newline>---\<newline>'') \<noteq> lit ''title: Rundan''
   \<and> load_routes echo_lib [(lit ''runda-1.md'', lit ''title: Rundan\<newline>---\<newline>'')]
       = Inr [YStr (lit ''title: Rundan\<newline>---'')]"
  by (simp add: strip_delimiters_def py_strip_def py_strip_chars_def startswith_def isspace_def
      lit_Cons lit_Nil load_routes_def glob_md_def suffix_to_prefix echo_lib_def example_lib_def)

text \<open>
  C4. When \<^verbatim>\<open>load_routes\<close> returns, its records are, in order, the parsed documents of
  the \<^verbatim>\<open>*.md\<close> files of the metadata directory taken in ascending order of file name:
  there is an arrangement of exactly these files, sorted by name, whose \<open>i\<close>-th file parses
  to the \<open>i\<close>-th record.
\<close>

theorem load_routes_sorted_by_filename:
  assumes "load_routes L metadata_dir = Inr routes"
  shows "\<exists>files. mset files = mset (glob_md metadata_dir)
           \<and> sorted (map fst files)
           \<and> length routes = length files
           \<and> (\<forall>i < length files.
                 safe_load L (strip_delimiters (snd (files ! i))) = Inr (routes ! i))"
proof -
  let ?files = "sort_key fst (glob_md metadata_dir)"
  from assms have "load_loop L ?files [] = Inr routes"
    by (simp add: load_routes_def)
  from load_loop_Inr [OF this]
  have "length routes = length ?files"
    "\<forall>i < length ?files. safe_load L (strip_delimiters (snd (?files ! i))) = Inr (routes ! i)"
    by auto
  moreover have "mset ?files = mset (glob_md metadata_dir)" "sorted (map fst ?files)"
    by simp_all
  ultimately show ?thesis by blast
qed

theorem load_routes_sorted_by_filename_witness:
  "load_routes echo_lib unordered_dir = Inr [YStr (lit ''first''), YStr (lit ''second'')]
   \<and> (\<exists>md_files. mset md_files = mset (glob_md unordered_dir)
         \<and> sorted (map fst md_files) \<and> length md_files = 2
         \<and> safe_load echo_lib (strip_delimiters (snd (md_files ! 0))) = Inr (YStr (lit ''first''))
         \<and> safe_load echo_lib (strip_delimiters (snd (md_files ! 1))) = Inr (YStr (lit ''second'')))"
proof -
  have run: "load_routes echo_lib unordered_dir = Inr [YStr (lit ''first''), YStr (lit ''second'')]"
    by (simp add: load_routes_def glob_md_def unordered_dir_def eval_simps echo_lib_def
        example_lib_def strip_delimiters_def py_strip_def isspace_def startswith_def)
  from load_routes_sorted_by_filename [OF run] obtain md_files where
    "mset md_files = mset (glob_md unordered_dir)" "sorted (map fst md_files)"
    "length [YStr (lit ''first''), YStr (lit ''second'') :: unit yval] = length md_files"
    "\<forall>i < length md_files. safe_load echo_lib (strip_delimiters (snd (md_files ! i)))
        = Inr ([YStr (lit ''first''), YStr (lit ''second'')] ! i)"
    by blast
  then have "mset md_files = mset (glob_md unordered_dir) \<and> sorted (map fst md_files)
      \<and> length md_files = 2
      \<and> safe_load echo_lib (strip_delimiters (snd (md_files ! 0))) = Inr (YStr (lit ''first''))
      \<and> safe_load echo_lib (strip_delimiters (snd (md_files ! 1))) = Inr (YStr (lit ''second''))"
    by force
  with run show ?thesis by blast
qed



text \<open>
  C8. When \<^verbatim>\<open>generate_area_index\<close> succeeds, the array it embeds after
  \<^verbatim>\<open>const routes =\<close> has exactly one text for each route record, the JSON text of that
  route's compact entry, in the order of the routes; \<^verbatim>\<open>load_routes\<close> returns as many
  records as the area has \<^verbatim>\<open>*.md\<close> files, so the entries are as many as the route files.
  With no route the function writes the page embedding the empty array, without error, and
  the driver writes this page for an area directory without route files and goes on.
\<close>

theorem one_entry_per_route:
  "(generate_area_index L area routes p out = Inr out' \<longrightarrow>
      (\<exists>texts. length texts = length routes
         \<and> (\<forall>i < length routes. \<exists>entry.
               route_entry (routes ! i) = Inr entry \<and> dumps L entry = Inr (texts ! i))
         \<and> out' = out @ [(p, area_index_html (capitalize L area)
                                (lit ''['' @ join (lit '', '') texts @ lit '']''))]))
   \<and> sublist (lit ''const routes = '' @ routes_json @ lit '';'')
         (area_index_html (capitalize L area) routes_json)
   \<and> (load_routes L metadata_dir = Inr routes' \<longrightarrow> length routes' = length (glob_md metadata_dir))
   \<and> generate_area_index L area [] p out
       = Inr (out @ [(p, area_index_html (capitalize L area) (lit ''[]''))])
   \<and> (glob_md empty_dir = [] \<longrightarrow>
        main_loop L ((area, Directory empty_dir) # rest) areas out
        = main_loop L rest (areas @ [area])
            (out @ [([lit ''areas'', area, lit ''index.html''],
                     area_index_html (capitalize L area) (lit ''[]''))]))"
proof (intro conjI impI)
  assume g: "generate_area_index L area routes p out = Inr out'"
  then obtain entries routes_json where
    e: "route_entries routes = Inr entries" "dumps L (YList entries) = Inr routes_json"
      "out' = out @ [(p, area_index_html (capitalize L area) routes_json)]"
    by (auto simp: generate_area_index_Inr)
  from route_entries_Inr [OF e(1)]
  have len: "length entries = length routes"
    and ent: "\<forall>i < length routes. route_entry (routes ! i) = Inr (entries ! i)"
    by auto
  from dumps_YList_Inr [OF e(2)] obtain texts where
    t: "routes_json = lit ''['' @ join (lit '', '') texts @ lit '']''" "length texts = length entries"
      "\<forall>i < length entries. dumps L (entries ! i) = Inr (texts ! i)"
    by blast
  show "\<exists>texts. length texts = length routes
         \<and> (\<forall>i < length routes. \<exists>entry.
               route_entry (routes ! i) = Inr entry \<and> dumps L entry = Inr (texts ! i))
         \<and> out' = out @ [(p, area_index_html (capitalize L area)
                                (lit ''['' @ join (lit '', '') texts @ lit '']''))]"
    using e(3) t len ent by (intro exI [of _ texts]) auto
next
  show "sublist (lit ''const routes = '' @ routes_json @ lit '';'')
         (area_index_html (capitalize L area) routes_json)"
    by (rule routes_line)
next
  assume "load_routes L metadata_dir = Inr routes'"
  then have "load_loop L (sort_key fst (glob_md metadata_dir)) [] = Inr routes'"
    by (simp add: load_routes_def)
  from load_loop_Inr [OF this] show "length routes' = length (glob_md metadata_dir)"
    by auto
next
  show "generate_area_index L area [] p out
       = Inr (out @ [(p, area_index_html (capitalize L area) (lit ''[]''))])"
    by (simp add: generate_area_index_def write_text_def lit_def)
next
  assume "glob_md empty_dir = []"
  then have "load_routes L empty_dir = Inr []"
    by (simp add: load_routes_def)
  moreover have "generate_area_index L area [] [lit ''areas'', area, lit ''index.html''] out
       = Inr (out @ [([lit ''areas'', area, lit ''index.html''],
                       area_index_html (capitalize L area) (lit ''[]''))])"
    by (simp add: generate_area_index_def write_text_def lit_def)
  ultimately show "main_loop L ((area, Directory empty_dir) # rest) areas out
        = main_loop L rest (areas @ [area])
            (out @ [([lit ''areas'', area, lit ''index.html''],
                     area_index_html (capitalize L area) (lit ''[]''))])"
    by simp
qed

theorem one_entry_per_route_witness:
  \<open>generate_area_index (example_lib (\<lambda>text. Inr (YDict good_record))) (lit ''fryksas'')
      [YDict good_record, YDict half_record] [] []
    = Inr [([], area_index_html (lit ''Fryksas'')
        (lit ''[{"title": "Rundan", "slug": "runda-1", "distance": null, "elevation": null, "asphalt": null, "gravel": null}, {"title": "Rundan", "slug": "runda-1", "distance": 0.5, "elevation": -12, "asphalt": null, "gravel": null}]''))]
   \<and> (\<exists>texts. length texts = 2
        \<and> generate_area_index (example_lib (\<lambda>text. Inr (YDict good_record))) (lit ''fryksas'')
            [YDict good_record, YDict half_record] [] []
          = Inr [([], area_index_html (lit ''Fryksas'')
                        (lit ''['' @ join (lit '', '') texts @ lit '']''))])
   \<and> load_routes (example_lib (\<lambda>text. Inr (YDict good_record))) unordered_dir
       = Inr [YDict good_record, YDict good_record]
   \<and> length (glob_md unordered_dir) = 2
   \<and> glob_md [(lit ''notes.txt'', lit ''other'')] = []
   \<and> main (example_lib (\<lambda>text. Inr (YDict good_record)))
        [(lit ''fryksas'', Directory [(lit ''notes.txt'', lit ''other'')])]
       = (None,
          [([lit ''areas'', lit ''fryksas'', lit ''index.html''],
            area_index_html (lit ''Fryksas'') (lit ''[]'')),
           ([lit ''index.html''],
            root_index_head @ root_index_item (lit ''fryksas'') (lit ''Fryksas'') @ root_index_tail)])\<close>
proof -
  let ?L = "example_lib (\<lambda>text. Inr (YDict good_record))"
  let ?out = \<open>[([] :: path, area_index_html (lit ''Fryksas'')
        (lit ''[{"title": "Rundan", "slug": "runda-1", "distance": null, "elevation": null, "asphalt": null, "gravel": null}, {"title": "Rundan", "slug": "runda-1", "distance": 0.5, "elevation": -12, "asphalt": null, "gravel": null}]''))]\<close>
  have cap: "capitalize ?L (lit ''fryksas'') = lit ''Fryksas''"
    by (simp add: example_lib_def ascii_capitalize_def lit_Cons lit_Nil)
  have run: "generate_area_index ?L (lit ''fryksas'') [YDict good_record, YDict half_record] [] []
      = Inr ?out"
    by (simp add: generate_area_index_def route_entry_def half_record_def good_record_def
        eval_simps example_lib_def ascii_capitalize_def write_text_def encode_basestring_def
        escape_char_def int_str_def nat_str.simps)
  have loaded: "load_routes ?L unordered_dir = Inr [YDict good_record, YDict good_record]"
    by (simp add: load_routes_def glob_md_def unordered_dir_def eval_simps example_lib_def)
  have empty: "glob_md [(lit ''notes.txt'', lit ''other'')] = []"
    by (simp add: glob_md_def eval_simps)
  note inst = one_entry_per_route [of ?L "lit ''fryksas''" "[YDict good_record, YDict half_record]"
      "[]" "[]" ?out "lit ''[]''" unordered_dir "[YDict good_record, YDict good_record]"
      "[(lit ''notes.txt'', lit ''other'')]" "[]" "[]"]
  from inst [THEN conjunct1, rule_format, OF run] obtain texts where "length texts = 2"
      "?out = [([], area_index_html (lit ''Fryksas'') (lit ''['' @ join (lit '', '') texts @ lit '']''))]"
    unfolding cap by (auto simp: numeral_2_eq_2)
  with run have texts: "\<exists>texts. length texts = 2
        \<and> generate_area_index ?L (lit ''fryksas'') [YDict good_record, YDict half_record] [] []
          = Inr [([], area_index_html (lit ''Fryksas'')
                        (lit ''['' @ join (lit '', '') texts @ lit '']''))]"
    by auto
  from inst [THEN conjunct2, THEN conjunct2, THEN conjunct1, rule_format, OF loaded]
  have len: "length (glob_md unordered_dir) = 2"
    by simp
  from inst [THEN conjunct2, THEN conjunct2, THEN conjunct2, THEN conjunct2, rule_format, OF empty]
  have "main ?L [(lit ''fryksas'', Directory [(lit ''notes.txt'', lit ''other'')])]
       = (None,
          [([lit ''areas'', lit ''fryksas'', lit ''index.html''],
            area_index_html (lit ''Fryksas'') (lit ''[]'')),
           ([lit ''index.html''],
            root_index_head @ root_index_item (lit ''fryksas'') (lit ''Fryksas'') @ root_index_tail)])"
    by (simp add: main_def generate_root_index_def write_text_def cap)
  with run texts loaded len empty show ?thesis
    by blast
qed

text \<open>
  C5. The area \<^verbatim>\<open>fryksas\<close> has one route file, which parses to the record with slug
  \<^verbatim>\<open>runda-1\<close>, title \<^verbatim>\<open>Rundan\<close>, \<^verbatim>\<open>distance_km\<close> 55, \<^verbatim>\<open>elevation_m\<close> 600,
  \<^verbatim>\<open>gpx_file\<close> \<^verbatim>\<open>runda-1.gpx\<close> and no photos. The run succeeds and writes three files:
  \<^verbatim>\<open>areas/fryksas/index.html\<close>, \<^verbatim>\<open>areas/fryksas/routes/runda-1.html\<close> and
  \<^verbatim>\<open>index.html\<close>. The route page contains \<^verbatim>\<open>Rundan\<close>, \<^verbatim>\<open>55 km\<close>, \<^verbatim>\<open>600 m\<close>, a photo
  gallery without items and a link to \<^verbatim>\<open>../../gpx/runda-1.gpx\<close>; the area index embeds the
  array of exactly one entry, whose slug is \<^verbatim>\<open>runda-1\<close>.
\<close>

theorem runda_scenario:
  assumes \<open>safe_load L (strip_delimiters content) = Inr (YDict runda)\<close>
    and \<open>suffix (lit ''.md'') name\<close>
  shows \<open>main L [(lit ''fryksas'', Directory [(name, content)])]
       = (None,
          [([lit ''areas'', lit ''fryksas'', lit ''index.html''],
            runda_index (capitalize L (lit ''fryksas''))),
           ([lit ''areas'', lit ''fryksas'', lit ''routes'', lit ''runda-1.html''], runda_page),
           ([lit ''index.html''], fryksas_root (capitalize L (lit ''fryksas'')))])
     \<and> sublist (lit ''Rundan'') runda_page
     \<and> sublist (lit ''55 km'') runda_page
     \<and> sublist (lit ''600 m'') runda_page
     \<and> sublist (lit ''<ul class='photo-gallery'></ul>'') runda_page
     \<and> sublist (lit ''<a href='../../gpx/runda-1.gpx'>'') runda_page
     \<and> sublist (lit ''const routes = [{"title": "Rundan", "slug": "runda-1", "distance": 55, "elevation": 600, "asphalt": null, "gravel": null}];'')
           (runda_index (capitalize L (lit ''fryksas'')))\<close>
  using runda_run [OF assms] runda_page_texts runda_index_text by simp

theorem runda_scenario_witness:
  \<open>safe_load (example_lib (\<lambda>text. Inr (YDict runda))) (strip_delimiters (lit ''slug: runda-1''))
      = Inr (YDict runda)
     \<and> suffix (lit ''.md'') (lit ''runda-1.md'')
     \<and> main (example_lib (\<lambda>text. Inr (YDict runda)))
          [(lit ''fryksas'', Directory [(lit ''runda-1.md'', lit ''slug: runda-1'')])]
       = (None,
          [([lit ''areas'', lit ''fryksas'', lit ''index.html''], runda_index (lit ''Fryksas'')),
           ([lit ''areas'', lit ''fryksas'', lit ''routes'', lit ''runda-1.html''], runda_page),
           ([lit ''index.html''], fryksas_root (lit ''Fryksas''))])
     \<and> sublist (lit ''55 km'') runda_page
     \<and> sublist (lit ''const routes = [{"title": "Rundan", "slug": "runda-1", "distance": 55, "elevation": 600, "asphalt": null, "gravel": null}];'')
           (runda_index (lit ''Fryksas''))\<close>
proof -
  let ?L = "example_lib (\<lambda>text. Inr (YDict runda))"
  have parse: "safe_load ?L (strip_delimiters (lit ''slug: runda-1'')) = Inr (YDict runda)"
    by (simp add: example_lib_def)
  have name: "suffix (lit ''.md'') (lit ''runda-1.md'')"
    by (simp add: eval_simps)
  have cap: "capitalize ?L (lit ''fryksas'') = lit ''Fryksas''"
    by (simp add: example_lib_def ascii_capitalize_def lit_Cons lit_Nil)
  from runda_scenario [OF parse name] parse name show ?thesis
    unfolding cap by simp
qed

text \<open>
  C6. Let an area directory hold a malformed metadata file: a \<^verbatim>\<open>*.md\<close> file whose text the
  YAML parser rejects. Then the run aborts with an error, and the files it has written are
  exactly those written while the entries before this area were processed: no file of this
  area and no root index is written, and nothing written before is taken back. When the
  entries before were processed without error, the error of the run is the one
  \<^verbatim>\<open>load_routes\<close> raised for this area, the parse error of one of its malformed files.
\<close>

theorem malformed_file_aborts:
  assumes "(name, content) \<in> set (glob_md metadata_dir)"
    and "safe_load L (strip_delimiters content) = Inl e"
  shows "\<exists>e'. main L (before @ (area, Directory metadata_dir) # rest)
                = (Some e', snd (snd (main_loop L before [] [])))
           \<and> (fst (main_loop L before [] []) = None \<longrightarrow>
                 load_routes L metadata_dir = Inl e'
               \<and> (\<exists>(n, c) \<in> set (glob_md metadata_dir).
                     safe_load L (strip_delimiters c) = Inl e'))"
proof -
  obtain r areas out where b: "main_loop L before [] [] = (r, areas, out)"
    by (cases "main_loop L before [] []") auto
  from load_routes_fail [OF assms] obtain e' where
    e': "load_routes L metadata_dir = Inl e'"
      "\<exists>(n, c) \<in> set (glob_md metadata_dir). safe_load L (strip_delimiters c) = Inl e'"
    by blast
  show ?thesis
  proof (cases r)
    case None
    with b e'(1) have "main L (before @ (area, Directory metadata_dir) # rest) = (Some e', out)"
      by (simp add: main_def main_loop_append)
    with b e' None show ?thesis by auto
  next
    case (Some e0)
    with b have "main L (before @ (area, Directory metadata_dir) # rest) = (Some e0, out)"
      by (simp add: main_def main_loop_append)
    with b Some show ?thesis by auto
  qed
qed

theorem malformed_file_aborts_witness:
  "(lit ''c.md'', lit ''title: ['')
      \<in> set (glob_md [(lit ''b.md'', lit ''title: Rundan''), (lit ''c.md'', lit ''title: ['')])
   \<and> safe_load strict_lib (strip_delimiters (lit ''title: ['')) = Inl YAMLError
   \<and> main strict_lib good_then_bad
      = (Some YAMLError,
         [([lit ''areas'', lit ''varmland'', lit ''index.html''], varmland_index),
          ([lit ''areas'', lit ''varmland'', lit ''routes'', lit ''runda-1.html''], bare_page)])
   \<and> snd (snd (main_loop strict_lib
                 [(lit ''varmland'', Directory [(lit ''a.md'', lit ''title: Rundan'')])] [] []))
      = [([lit ''areas'', lit ''varmland'', lit ''index.html''], varmland_index),
         ([lit ''areas'', lit ''varmland'', lit ''routes'', lit ''runda-1.html''], bare_page)]"
proof -
  have mem: "(lit ''c.md'', lit ''title: ['')
      \<in> set (glob_md [(lit ''b.md'', lit ''title: Rundan''), (lit ''c.md'', lit ''title: ['')])"
    by (simp add: glob_md_def eval_simps)
  have parse: "safe_load strict_lib (strip_delimiters (lit ''title: ['')) = Inl YAMLError"
    by (simp add: strict_lib_def example_lib_def strip_delimiters_def py_strip_def isspace_def
        startswith_def lit_Cons lit_Nil)
  have run: "main strict_lib good_then_bad
      = (Some YAMLError,
         [([lit ''areas'', lit ''varmland'', lit ''index.html''], varmland_index),
          ([lit ''areas'', lit ''varmland'', lit ''routes'', lit ''runda-1.html''], bare_page)])"
    by (simp add: main_def good_then_bad_def strict_lib_def example_lib_def load_routes_def
        glob_md_def eval_simps strip_delimiters_def py_strip_def isspace_def startswith_def
        generate_area_index_def route_entry_def good_record_def write_text_def
        encode_basestring_def escape_char_def ascii_capitalize_def varmland_index_def
        generate_route_page_def route_page_def bare_page_def replace_newlines_def)
  from malformed_file_aborts [OF mem parse,
      of "[(lit ''varmland'', Directory [(lit ''a.md'', lit ''title: Rundan'')])]"
        "lit ''fryksas''" "[]"]
  have "snd (snd (main_loop strict_lib
                 [(lit ''varmland'', Directory [(lit ''a.md'', lit ''title: Rundan'')])] [] []))
      = [([lit ''areas'', lit ''varmland'', lit ''index.html''], varmland_index),
         ([lit ''areas'', lit ''varmland'', lit ''routes'', lit ''runda-1.html''], bare_page)]"
    using run by (auto simp: good_then_bad_def)
  with mem parse run show ?thesis by simp
qed

text \<open>
  C7. Two runs on the same directory tree write the same files with the same contents: the
  second run gives the result of the first, also when the files of a metadata directory are
  enumerated in another order, and committing its files over those of the first run leaves
  every file as the first run left it. The entries of the \<^verbatim>\<open>areas\<close> directory are taken in
  the same order in both runs.
\<close>

theorem rerun_identical:
  assumes "same_tree areas_dir areas_dir'"
  shows "main L areas_dir' = main L areas_dir
       \<and> commit (commit fs (snd (main L areas_dir))) (snd (main L areas_dir'))
           = commit fs (snd (main L areas_dir))"
proof -
  from assms have "main L areas_dir' = main L areas_dir"
    by (simp add: main_def main_loop_same_tree)
  then show ?thesis by (simp add: commit_twice)
qed

theorem rerun_identical_witness:
  "same_tree (one_area unordered_dir) (one_area (rev unordered_dir))
   \<and> fst (main titled_lib (one_area unordered_dir)) = None
   \<and> main titled_lib (one_area (rev unordered_dir)) = main titled_lib (one_area unordered_dir)
   \<and> commit (commit Map.empty (snd (main titled_lib (one_area unordered_dir))))
        (snd (main titled_lib (one_area (rev unordered_dir))))
      = commit Map.empty (snd (main titled_lib (one_area unordered_dir)))"
proof -
  have same: "same_tree (one_area unordered_dir) (one_area (rev unordered_dir))"
    by (simp add: same_tree_def one_area_def unordered_dir_def eval_simps)
  have ok: "fst (main titled_lib (one_area unordered_dir)) = None"
    by (simp add: main_def one_area_def unordered_dir_def titled_lib_def example_lib_def
        load_routes_def glob_md_def eval_simps strip_delimiters_def py_strip_def isspace_def
        startswith_def generate_area_index_def route_entry_def write_text_def
        encode_basestring_def escape_char_def generate_route_page_def route_page_def)
  from rerun_identical [OF same, of titled_lib Map.empty] same ok show ?thesis
    by blast
qed



end
